theory Spec2Isabelle
  imports Complex_Main "HOL-Library.Log_Nat"
begin

section \<open>The Go runtime and standard library, as far as the code uses them\<close>

text \<open>
  The request admission layer (package \<open>middleware\<close>) and the health probes (package
  \<open>server\<close>) are embedded as HOL functions. Everything the Go code reads from its
  surroundings is an explicit argument: the process environment (\<open>os.Getenv\<close>), the clock
  (\<open>time.Now\<close>), the JSON encoder and the service provider. Mutation of the middleware
  (its map of limiters) and of the response writer is explicit state passing. A run-time
  panic is a value of type \<open>panic\<close>.

  Logging is left out: \<open>main\<close> builds the logger before anything else and panics itself
  when that fails, so every \<open>Logger\<close> the constructors receive is usable, and a log call
  changes neither the response nor the limiters. With it goes \<open>formatIPAddress\<close>, whose
  result is only ever logged. The mutexes are left out as well: requests are modelled one
  after the other. One call of a handler reads the clock once: the readings that
  \<open>time.Now\<close> and \<open>time.Since\<close> take during one call are the same instant.
\<close>

datatype panic = DivideByZero | NilPointerDereference

type_synonym Time = int
  \<comment> \<open>an instant, in nanoseconds since the Unix epoch\<close>

type_synonym Duration = int
  \<comment> \<open>\<open>time.Duration\<close>: a signed 64-bit count of nanoseconds\<close>

type_synonym Environ = "string \<Rightarrow> string"
  \<comment> \<open>\<open>os.Getenv\<close>: the empty string for a variable that is not set\<close>

definition Second :: Duration where
  "Second = 1000000000"

definition Minute :: Duration where
  "Minute = 60 * Second"

definition maxDuration :: Duration where
  "maxDuration = 2 ^ 63 - 1"

definition minDuration :: Duration where
  "minDuration = - (2 ^ 63)"

definition zeroTime :: Time where
  \<comment> \<open>the zero \<open>time.Time\<close>, January 1 of year 1, 00:00 UTC\<close>
  "zeroTime = - 62135596800 * Second"

definition time_Sub :: "Time \<Rightarrow> Time \<Rightarrow> Duration" where
  \<comment> \<open>\<open>t.Sub(u)\<close>: the difference, saturated at the largest and smallest Duration\<close>
  "time_Sub t u =
     (let d = t - u
      in if d > maxDuration then maxDuration
         else if d < minDuration then minDuration
         else d)"

definition time_Since :: "Time \<Rightarrow> Time \<Rightarrow> Duration" where
  \<comment> \<open>\<open>time.Since(t)\<close> evaluated when the clock reads \<open>now\<close>\<close>
  "time_Since now t = time_Sub now t"

definition truncQuo :: "int \<Rightarrow> int \<Rightarrow> int" where
  \<comment> \<open>the quotient of Go's integer \<open>/\<close>, truncated towards zero\<close>
  "truncQuo a b = sgn a * sgn b * (\<bar>a\<bar> div \<bar>b\<bar>)"

definition truncRem :: "int \<Rightarrow> int \<Rightarrow> int" where
  \<comment> \<open>Go's integer \<open>%\<close>: the remainder has the sign of the dividend\<close>
  "truncRem a b = a - b * truncQuo a b"

definition int_quo :: "int \<Rightarrow> int \<Rightarrow> panic + int" where
  \<comment> \<open>Go's integer \<open>/\<close>: truncated towards zero, a run-time panic on a zero divisor\<close>
  "int_quo a b =
     (if b = 0 then Inl DivideByZero
      else Inr (truncQuo a b))"

subsection \<open>Floating point\<close>

text \<open>
  A finite \<open>float64\<close> is the rational number it stands for. Every operation of the
  code on \<open>float64\<close> is the exact operation followed by \<open>float64\<close>, the rounding of
  IEEE 754 to the nearest number with a significand of 53 bits, a tie going to the even
  significand. The range of the exponent is not bounded: the durations of the code are
  64-bit counts of nanoseconds, and nothing computed from them comes near the largest or
  the smallest double. The only infinity the code can produce, a rate of one over zero
  seconds, is a value of its own (\<open>InfLimit\<close> below).
\<close>

definition roundHalfEven :: "rat \<Rightarrow> int" where
  "roundHalfEven q =
     (let f = \<lfloor>q\<rfloor>; r = q - of_int f
      in if r < 1 / 2 then f
         else if 1 / 2 < r then f + 1
         else if even f then f else f + 1)"

definition ilog2 :: "rat \<Rightarrow> int" where
  \<comment> \<open>for \<open>0 < y\<close>, the exponent \<open>e\<close> with \<open>2 powi e \<le> y < 2 powi (e + 1)\<close>\<close>
  "ilog2 y = (if 1 \<le> y then bitlen \<lfloor>y\<rfloor> - 1 else - bitlen (\<lceil>1 / y\<rceil> - 1))"

definition float64 :: "rat \<Rightarrow> rat" where
  "float64 x =
     (if x = 0 then 0
      else (let u = 2 powi (ilog2 \<bar>x\<bar> - 52)
            in of_int (roundHalfEven (x / u)) * u))"

definition float_to_int64 :: "rat \<Rightarrow> int" where
  \<comment> \<open>the conversion \<open>int64(x)\<close>, as \<open>time.Duration(x)\<close> does it: the fraction is dropped;
      for a value out of range the result is that of amd64, the smallest \<open>int64\<close>\<close>
  "float_to_int64 x =
     (let n = (if 0 \<le> x then \<lfloor>x\<rfloor> else \<lceil>x\<rceil>)
      in if - (2 ^ 63) \<le> n \<and> n < 2 ^ 63 then n else - (2 ^ 63))"

definition Duration_Seconds :: "Duration \<Rightarrow> rat" where
  \<comment> \<open>\<open>d.Seconds()\<close>\<close>
  "Duration_Seconds d =
     (let sec = truncQuo d Second; nsec = truncRem d Second
      in float64 (float64 (of_int sec) + float64 (float64 (of_int nsec) / 1000000000)))"

definition Duration_Minutes :: "Duration \<Rightarrow> rat" where
  \<comment> \<open>\<open>d.Minutes()\<close>\<close>
  "Duration_Minutes d =
     (let min = truncQuo d Minute; nsec = truncRem d Minute
      in float64 (float64 (of_int min) + float64 (float64 (of_int nsec) / 60000000000)))"

subsection \<open>Strings\<close>

text \<open>
  A Go string is its bytes, in UTF-8. \<open>strings.TrimSpace\<close> removes the runes of
  \<open>unicode.IsSpace\<close> from both ends. A rune at the start of a string is one of them
  exactly when the string starts with its encoding, and likewise at the end: a byte
  sequence that is not valid UTF-8 decodes to the replacement rune, which is not white
  space.
\<close>

definition spaceRunes :: "string list" where
  \<comment> \<open>the UTF-8 encodings of the white space of \<open>unicode.IsSpace\<close>: U+0009 to U+000D,
      U+0020, U+0085, U+00A0, U+1680, U+2000 to U+200A, U+2028, U+2029, U+202F, U+205F,
      U+3000\<close>
  "spaceRunes =
     [[CHR 0x09], [CHR 0x0A], [CHR 0x0B], [CHR 0x0C], [CHR 0x0D], [CHR 0x20],
      [CHR 0xC2, CHR 0x85], [CHR 0xC2, CHR 0xA0],
      [CHR 0xE1, CHR 0x9A, CHR 0x80],
      [CHR 0xE2, CHR 0x80, CHR 0x80], [CHR 0xE2, CHR 0x80, CHR 0x81],
      [CHR 0xE2, CHR 0x80, CHR 0x82], [CHR 0xE2, CHR 0x80, CHR 0x83],
      [CHR 0xE2, CHR 0x80, CHR 0x84], [CHR 0xE2, CHR 0x80, CHR 0x85],
      [CHR 0xE2, CHR 0x80, CHR 0x86], [CHR 0xE2, CHR 0x80, CHR 0x87],
      [CHR 0xE2, CHR 0x80, CHR 0x88], [CHR 0xE2, CHR 0x80, CHR 0x89],
      [CHR 0xE2, CHR 0x80, CHR 0x8A],
      [CHR 0xE2, CHR 0x80, CHR 0xA8], [CHR 0xE2, CHR 0x80, CHR 0xA9],
      [CHR 0xE2, CHR 0x80, CHR 0xAF],
      [CHR 0xE2, CHR 0x81, CHR 0x9F],
      [CHR 0xE3, CHR 0x80, CHR 0x80]]"

definition runeWidth :: "string list \<Rightarrow> string \<Rightarrow> nat" where
  \<comment> \<open>the length of the encoding in \<open>runes\<close> that \<open>s\<close> starts with, 0 when there is none\<close>
  "runeWidth runes s =
     (case find (\<lambda>p. take (length p) s = p) runes of
        None \<Rightarrow> 0
      | Some p \<Rightarrow> length p)"

function dropRunes :: "string list \<Rightarrow> string \<Rightarrow> string" where
  "dropRunes runes s =
     (if runeWidth runes s = 0 then s
      else dropRunes runes (drop (runeWidth runes s) s))"
  by pat_completeness auto
termination
proof (relation "measure (\<lambda>(runes, s). length s)")
  show "wf (measure (\<lambda>(runes, s). length s))" by simp
next
  fix runes :: "string list" and s :: string
  assume w: "runeWidth runes s \<noteq> 0"
  have "s \<noteq> []"
  proof
    assume "s = []"
    have "runeWidth runes [] = 0"
    proof (cases "find (\<lambda>p. take (length p) [] = p) runes")
      case None
      then show ?thesis by (simp add: runeWidth_def)
    next
      case (Some p)
      then have "p = []" by (auto simp: find_Some_iff)
      with Some show ?thesis by (simp add: runeWidth_def)
    qed
    with \<open>s = []\<close> w show False by simp
  qed
  then show "((runes, drop (runeWidth runes s) s), (runes, s))
             \<in> measure (\<lambda>(runes, s). length s)"
    using w by simp
qed

definition TrimLeft :: "string \<Rightarrow> string" where
  "TrimLeft s = dropRunes spaceRunes s"

definition TrimRight :: "string \<Rightarrow> string" where
  "TrimRight s = rev (dropRunes (map rev spaceRunes) (rev s))"

definition TrimSpace :: "string \<Rightarrow> string" where
  "TrimSpace s = TrimRight (TrimLeft s)"

fun Split :: "string \<Rightarrow> char \<Rightarrow> string list" where
  \<comment> \<open>\<open>strings.Split\<close> with a one-character separator: one more part than separators\<close>
  "Split [] sep = [[]]"
| "Split (c # cs) sep =
     (if c = sep then [] # Split cs sep
      else (case Split cs sep of
              [] \<Rightarrow> [[c]]
            | p # ps \<Rightarrow> (c # p) # ps))"

fun IndexByte :: "string \<Rightarrow> char \<Rightarrow> nat option" where
  "IndexByte [] c = None"
| "IndexByte (x # xs) c =
     (if x = c then Some 0 else map_option Suc (IndexByte xs c))"

definition LastIndexByte :: "string \<Rightarrow> char \<Rightarrow> nat option" where
  "LastIndexByte s c =
     (case IndexByte (rev s) c of
        None \<Rightarrow> None
      | Some k \<Rightarrow> Some (length s - 1 - k))"

definition Contains :: "string \<Rightarrow> char \<Rightarrow> bool" where
  "Contains s c = (c \<in> set s)"

definition SplitHostPort :: "string \<Rightarrow> (string \<times> string) option" where
  \<comment> \<open>\<open>net.SplitHostPort\<close>; \<open>None\<close> stands for each of its errors\<close>
  "SplitHostPort hostport =
     (case LastIndexByte hostport (CHR '':'') of
        None \<Rightarrow> None
      | Some i \<Rightarrow>
          (if take 1 hostport = ''[''
           then (case IndexByte hostport (CHR '']'') of
                   None \<Rightarrow> None
                 | Some e \<Rightarrow>
                     if e + 1 = length hostport then None
                     else if e + 1 = i
                     then (if Contains (drop 1 hostport) (CHR ''['') then None
                           else if Contains (drop (e + 1) hostport) (CHR '']'') then None
                           else Some (take (e - 1) (drop 1 hostport), drop (i + 1) hostport))
                     else None)
           else (if Contains (take i hostport) (CHR '':'') then None
                 else if Contains hostport (CHR ''['') then None
                 else if Contains hostport (CHR '']'') then None
                 else Some (take i hostport, drop (i + 1) hostport))))"

definition isDigit :: "char \<Rightarrow> bool" where
  "isDigit c = (48 \<le> (of_char c :: nat) \<and> (of_char c :: nat) \<le> 57)"

definition digitVal :: "char \<Rightarrow> int" where
  "digitVal c = int (of_char c) - 48"

definition decimal :: "string \<Rightarrow> int" where
  "decimal ds = foldl (\<lambda>acc c. 10 * acc + digitVal c) 0 ds"

definition Atoi :: "string \<Rightarrow> int option" where
  \<comment> \<open>\<open>strconv.Atoi\<close> on a 64-bit platform: an optional sign and decimal digits;
      \<open>None\<close> stands for a syntax error or a value out of the range of \<open>int\<close>\<close>
  "Atoi s =
     (let neg = (take 1 s = ''-'');
          ds = (if take 1 s = ''-'' \<or> take 1 s = ''+'' then drop 1 s else s)
      in if ds = [] \<or> \<not> list_all isDigit ds then None
         else (let v = (if neg then - decimal ds else decimal ds)
               in if v < - (2 ^ 63) \<or> 2 ^ 63 - 1 < v then None else Some v))"

definition ParseBool :: "string \<Rightarrow> bool option" where
  \<comment> \<open>\<open>strconv.ParseBool\<close>\<close>
  "ParseBool s =
     (if s \<in> {''1'', ''t'', ''T'', ''TRUE'', ''true'', ''True''} then Some True
      else if s \<in> {''0'', ''f'', ''F'', ''FALSE'', ''false'', ''False''} then Some False
      else None)"

fun showNat :: "nat \<Rightarrow> string" where
  "showNat n =
     (if n < 10 then [char_of (48 + n)]
      else showNat (n div 10) @ [char_of (48 + n mod 10)])"

definition Sprintf_f0 :: "rat \<Rightarrow> string" where
  \<comment> \<open>\<open>fmt.Sprintf("%.0f", x)\<close> for a finite \<open>x\<close>: the nearest integer, a tie going to
      the even one, with the sign of \<open>x\<close> also when the digits are \<open>0\<close>\<close>
  "Sprintf_f0 q =
     (let n = roundHalfEven q
      in if q < 0 then ''-'' @ showNat (nat (- n)) else showNat (nat n))"

section \<open>Data model\<close>

subsection \<open>Health documents (package server)\<close>

type_synonym HealthStatus = string
type_synonym CheckStatus = string

definition HealthStatusHealthy :: HealthStatus where
  "HealthStatusHealthy = ''healthy''"

definition HealthStatusUnhealthy :: HealthStatus where
  "HealthStatusUnhealthy = ''unhealthy''"

definition CheckStatusOK :: CheckStatus where
  "CheckStatusOK = ''ok''"

definition CheckStatusError :: CheckStatus where
  "CheckStatusError = ''error''"

record HealthResponse =
  Status :: HealthStatus
  Timestamp :: Time
  Version :: string
  Checks :: "string \<rightharpoonup> CheckStatus"
  Uptime :: "Duration option"
    \<comment> \<open>\<open>*time.Duration\<close>: \<open>None\<close> is the nil pointer\<close>
  Details :: "string \<rightharpoonup> string"
    \<comment> \<open>a nil map and an empty map are both the empty map\<close>

subsection \<open>Requests and response writers (net/http)\<close>

record Context =
  deadline :: "Time option"

definition WithTimeout :: "Time \<Rightarrow> Context \<Rightarrow> Duration \<Rightarrow> Context" where
  \<comment> \<open>\<open>context.WithTimeout(parent, d)\<close> when the clock reads \<open>now\<close>: the earlier of the
      parent's deadline and \<open>now + d\<close>\<close>
  "WithTimeout now parent d =
     (case deadline parent of
        None \<Rightarrow> parent\<lparr>deadline := Some (now + d)\<rparr>
      | Some p \<Rightarrow> parent\<lparr>deadline := Some (min p (now + d))\<rparr>)"

record Request =
  Method :: string
  URLPath :: string
  Header :: "string \<rightharpoonup> string"
  RemoteAddr :: string
  Ctx :: Context

definition Header_Get :: "(string \<rightharpoonup> string) \<Rightarrow> string \<Rightarrow> string" where
  \<comment> \<open>\<open>Header.Get\<close>: the empty string for a header that is absent\<close>
  "Header_Get h k = (case h k of None \<Rightarrow> [] | Some v \<Rightarrow> v)"

datatype chunk =
    JSONDocument HealthResponse
      \<comment> \<open>the JSON text of a health document and its final line feed\<close>
  | ErrorJSON string string string Time string
      \<comment> \<open>the error body: code, message, details, timestamp, path\<close>
  | Text string

record ResponseWriter =
  header :: "string \<rightharpoonup> string"
    \<comment> \<open>the map behind \<open>w.Header()\<close>\<close>
  wroteHeader :: bool
  code :: nat
    \<comment> \<open>the status line; 200 as long as nothing else was written\<close>
  sent :: "string \<rightharpoonup> string"
    \<comment> \<open>the headers as they were when the status line was written\<close>
  body :: "chunk list"

definition NewRecorder :: ResponseWriter where
  \<comment> \<open>a writer on which nothing has happened yet (\<open>httptest.NewRecorder\<close>)\<close>
  "NewRecorder =
     \<lparr>header = Map.empty, wroteHeader = False, code = 200, sent = Map.empty, body = []\<rparr>"

definition Header_Set :: "ResponseWriter \<Rightarrow> string \<Rightarrow> string \<Rightarrow> ResponseWriter" where
  "Header_Set w k v = w\<lparr>header := (header w)(k \<mapsto> v)\<rparr>"

definition Header_Del :: "ResponseWriter \<Rightarrow> string \<Rightarrow> ResponseWriter" where
  "Header_Del w k = w\<lparr>header := (header w)(k := None)\<rparr>"

definition WriteHeader :: "ResponseWriter \<Rightarrow> nat \<Rightarrow> ResponseWriter" where
  \<comment> \<open>the first call fixes the status and the headers; a later call is ignored\<close>
  "WriteHeader w c =
     (if wroteHeader w then w
      else w\<lparr>wroteHeader := True, code := c, sent := header w\<rparr>)"

definition Write :: "ResponseWriter \<Rightarrow> chunk \<Rightarrow> ResponseWriter" where
  \<comment> \<open>writing a body first writes status 200 when no status was written\<close>
  "Write w c =
     (let w1 = (if wroteHeader w then w else WriteHeader w 200)
      in w1\<lparr>body := body w1 @ [c]\<rparr>)"

definition responseHeader :: "ResponseWriter \<Rightarrow> string \<rightharpoonup> string" where
  \<comment> \<open>the headers the client receives\<close>
  "responseHeader w = (if wroteHeader w then sent w else header w)"

definition http_Error :: "ResponseWriter \<Rightarrow> string \<Rightarrow> nat \<Rightarrow> ResponseWriter" where
  \<comment> \<open>\<open>http.Error\<close>\<close>
  "http_Error w msg c =
     (let w1 = Header_Del w ''Content-Length'';
          w2 = Header_Set w1 ''Content-Type'' ''text/plain; charset=utf-8'';
          w3 = Header_Set w2 ''X-Content-Type-Options'' ''nosniff'';
          w4 = WriteHeader w3 c
      in Write w4 (Text (msg @ [CHR 0x0A])))"

type_synonym http_Handler = "Request \<Rightarrow> ResponseWriter \<Rightarrow> ResponseWriter"
  \<comment> \<open>\<open>http.Handler\<close>: \<open>ServeHTTP\<close> as a function on the writer\<close>

section \<open>The token bucket of golang.org/x/time/rate\<close>

text \<open>
  The limiter follows the documentation and the code of \<open>rate.Limiter\<close>: a bucket of
  \<open>burst\<close> tokens, full at first, refilled at \<open>limit\<close> tokens per second from the time
  that has passed since the last admitted event. The library computes with \<open>float64\<close>,
  and so does the model, operation by operation.
\<close>

datatype Limit = InfLimit | Rate rat
  \<comment> \<open>\<open>rate.Limit\<close>: events per second, \<open>InfLimit\<close> for \<open>rate.Inf\<close>\<close>

record Limiter =
  limit :: Limit
  burst :: int
  tokens :: rat
  last_tm :: Time
    \<comment> \<open>the field \<open>last\<close>: when \<open>tokens\<close> was last updated\<close>

definition NewLimiter :: "Limit \<Rightarrow> int \<Rightarrow> Limiter" where
  "NewLimiter r b =
     \<lparr>limit = r, burst = b, tokens = float64 (of_int b), last_tm = zeroTime\<rparr>"

definition tokensFromDuration :: "rat \<Rightarrow> Duration \<Rightarrow> rat" where
  \<comment> \<open>\<open>d.Seconds() * float64(limit)\<close>\<close>
  "tokensFromDuration r d =
     (if r \<le> 0 then 0 else float64 (Duration_Seconds d * r))"

definition durationFromTokens :: "rat \<Rightarrow> rat \<Rightarrow> Duration" where
  \<comment> \<open>\<open>(tokens / float64(limit)) * float64(time.Second)\<close>, capped above
      \<open>float64(math.MaxInt64)\<close>, which is \<open>2 ^ 63\<close>, and converted to a Duration\<close>
  "durationFromTokens r toks =
     (if r \<le> 0 then maxDuration
      else (let duration = float64 (float64 (toks / r) * 1000000000)
            in if 2 ^ 63 < duration then maxDuration
               else float_to_int64 duration))"

definition advance :: "Limiter \<Rightarrow> rat \<Rightarrow> Time \<Rightarrow> Time \<times> rat" where
  "advance lm r t =
     (let l = (if t < last_tm lm then t else last_tm lm);
          elapsed = time_Sub t l;
          delta = tokensFromDuration r elapsed;
          toks = float64 (tokens lm + delta);
          b = float64 (of_int (burst lm))
      in (t, if b < toks then b else toks))"

definition reserveN :: "Limiter \<Rightarrow> Time \<Rightarrow> int \<Rightarrow> Duration \<Rightarrow> Limiter \<times> bool" where
  \<comment> \<open>the limiter after the call, and the field \<open>ok\<close> of the reservation\<close>
  "reserveN lm t n maxFutureReserve =
     (case limit lm of
        InfLimit \<Rightarrow> (lm, True)
      | Rate r \<Rightarrow>
          if r = 0
          then (if n \<le> burst lm then (lm\<lparr>burst := burst lm - n\<rparr>, True)
                else (lm, False))
          else (case advance lm r t of
                  (t', toks0) \<Rightarrow>
                    (let toks = float64 (toks0 - float64 (of_int n));
                         waitDuration =
                           (if toks < 0 then durationFromTokens r (- toks) else 0);
                         ok = (n \<le> burst lm \<and> waitDuration \<le> maxFutureReserve)
                     in if ok then (lm\<lparr>tokens := toks, last_tm := t'\<rparr>, True)
                        else (lm, False))))"

definition Allow :: "Limiter \<Rightarrow> Time \<Rightarrow> Limiter \<times> bool" where
  \<comment> \<open>\<open>lim.Allow()\<close> when the clock reads \<open>now\<close>\<close>
  "Allow lm now = reserveN lm now 1 0"

section \<open>The security middleware (package middleware)\<close>

record SecurityConfig =
  CORSOrigins :: "string list"
  EnableSecurityHeaders :: bool
  RateLimit :: Duration

record SecurityMiddleware =
  config :: SecurityConfig
  rateLimiters :: "string \<rightharpoonup> Limiter"
    \<comment> \<open>the map of pointers to limiters: a limiter is updated in the map\<close>

definition parseCORSOrigins :: "Environ \<Rightarrow> string list" where
  "parseCORSOrigins env =
     (let corsOrigins = env ''SLACK_MCP_CORS_ORIGINS''
      in if corsOrigins = [] then []
         else filter (\<lambda>trimmed. trimmed \<noteq> [])
                (map TrimSpace (Split corsOrigins (CHR '',''))))"

definition parseSecurityHeaders :: "Environ \<Rightarrow> bool" where
  "parseSecurityHeaders env =
     (let v = env ''SLACK_MCP_SECURITY_HEADERS''
      in if v = [] then True
         else (case ParseBool v of None \<Rightarrow> True | Some enabled \<Rightarrow> enabled))"

definition parseRateLimit :: "Environ \<Rightarrow> panic + Duration" where
  "parseRateLimit env =
     (let v = env ''SLACK_MCP_RATE_LIMIT''
      in if v = [] then Inr Minute
         else (case Atoi v of
                 None \<Rightarrow> Inr Minute
               | Some requestsPerMinute \<Rightarrow>
                   if requestsPerMinute \<le> 0 then Inr Minute
                   else int_quo Minute requestsPerMinute))"

definition NewSecurityMiddleware :: "Environ \<Rightarrow> panic + SecurityMiddleware" where
  "NewSecurityMiddleware env =
     (case parseRateLimit env of
        Inl p \<Rightarrow> Inl p
      | Inr d \<Rightarrow>
          Inr \<lparr>config = \<lparr>CORSOrigins = parseCORSOrigins env,
                          EnableSecurityHeaders = parseSecurityHeaders env,
                          RateLimit = d\<rparr>,
               rateLimiters = Map.empty\<rparr>)"

definition getClientIP :: "Request \<Rightarrow> string" where
  "getClientIP r =
     (let xff = Header_Get (Header r) ''X-Forwarded-For''
      in if xff \<noteq> []
         then (case Split xff (CHR '','') of
                 [] \<Rightarrow> []
               | ip0 # _ \<Rightarrow> TrimSpace ip0)
         else (let xri = Header_Get (Header r) ''X-Real-IP''
               in if xri \<noteq> [] then xri
                  else (let ip = RemoteAddr r
                        in if Contains ip (CHR '':'')
                           then (case SplitHostPort ip of
                                   Some (host, port) \<Rightarrow> host
                                 | None \<Rightarrow> ip)
                           else ip)))"

definition writeErrorResponse ::
  "Time \<Rightarrow> ResponseWriter \<Rightarrow> Request \<Rightarrow> nat \<Rightarrow> string \<Rightarrow> string \<Rightarrow> string \<Rightarrow> ResponseWriter"
where
  "writeErrorResponse now w r statusCode errorCode message details =
     (let w1 = Header_Set w ''Content-Type'' ''application/json'';
          w2 = WriteHeader w1 statusCode
      in Write w2 (ErrorJSON errorCode message details now (URLPath r)))"

definition perSecond :: "Duration \<Rightarrow> Limit" where
  \<comment> \<open>\<open>rate.Limit(1.0 / d.Seconds())\<close>, the value \<open>rps\<close> of \<open>getRateLimiter\<close>: one
      over zero is the infinite rate\<close>
  "perSecond d =
     (if Duration_Seconds d = 0 then InfLimit
      else Rate (float64 (1 / Duration_Seconds d)))"

definition getRateLimiter :: "SecurityMiddleware \<Rightarrow> string \<Rightarrow> SecurityMiddleware \<times> Limiter" where
  "getRateLimiter sm ip =
     (case rateLimiters sm ip of
        Some limiter \<Rightarrow> (sm, limiter)
      | None \<Rightarrow>
          (let rps = perSecond (RateLimit (config sm));
               limiter = NewLimiter rps 1
           in (sm\<lparr>rateLimiters := (rateLimiters sm)(ip \<mapsto> limiter)\<rparr>, limiter)))"

definition rateLimitDetails :: "Duration \<Rightarrow> string" where
  \<comment> \<open>the \<open>details\<close> text of the 429 body: \<open>60.0 / RateLimit.Minutes()\<close> printed with
      \<open>%.0f\<close>; sixty over zero is \<open>+Inf\<close>\<close>
  "rateLimitDetails d =
     ''Rate limit of ''
       @ (if Duration_Minutes d = 0 then ''+Inf''
          else Sprintf_f0 (float64 (60 / Duration_Minutes d)))
       @ '' requests per minute exceeded''"

definition storeLimiter :: "SecurityMiddleware \<Rightarrow> string \<Rightarrow> Limiter \<Rightarrow> SecurityMiddleware" where
  \<comment> \<open>the limiter \<open>getRateLimiter\<close> returns is the object the map holds for the identity:
      what \<open>Allow\<close> does to it shows in the map where the map holds a limiter, and
      nowhere else\<close>
  "storeLimiter sm ip limiter =
     (case rateLimiters sm ip of
        None \<Rightarrow> sm
      | Some held \<Rightarrow> sm\<lparr>rateLimiters := (rateLimiters sm)(ip \<mapsto> limiter)\<rparr>)"

definition checkRateLimit ::
  "Time \<Rightarrow> SecurityMiddleware \<Rightarrow> Request \<Rightarrow> ResponseWriter
     \<Rightarrow> SecurityMiddleware \<times> ResponseWriter \<times> bool"
where
  "checkRateLimit now sm r w =
     (if RateLimit (config sm) = 0 then (sm, w, True)
      else (let clientIP = getClientIP r
            in case getRateLimiter sm clientIP of
                 (sm1, limiter) \<Rightarrow>
                   (case Allow limiter now of
                      (limiter', ok) \<Rightarrow>
                        (let sm2 = storeLimiter sm1 clientIP limiter'
                         in if \<not> ok
                            then (sm2,
                                  writeErrorResponse now w r 429 ''RATE_LIMIT_EXCEEDED''
                                    ''Too many requests from this client''
                                    (rateLimitDetails (RateLimit (config sm))),
                                  False)
                            else (sm2, w, True)))))"

fun corsLoop :: "string list \<Rightarrow> string \<Rightarrow> ResponseWriter \<Rightarrow> ResponseWriter \<times> bool" where
  \<comment> \<open>the loop over the allow-list: the writer, and the flag \<open>allowed\<close>\<close>
  "corsLoop [] origin w = (w, False)"
| "corsLoop (allowedOrigin # rest) origin w =
     (if allowedOrigin = ''*'' \<or> allowedOrigin = origin
      then (Header_Set w ''Access-Control-Allow-Origin'' origin, True)
      else corsLoop rest origin w)"

definition applyCORS :: "SecurityMiddleware \<Rightarrow> ResponseWriter \<Rightarrow> Request \<Rightarrow> ResponseWriter" where
  "applyCORS sm w r =
     (let origin = Header_Get (Header r) ''Origin'';
          w1 = (if length (CORSOrigins (config sm)) = 0
                then Header_Set w ''Access-Control-Allow-Origin'' ''*''
                else fst (corsLoop (CORSOrigins (config sm)) origin w));
          w2 = Header_Set w1 ''Access-Control-Allow-Methods'' ''GET, POST, PUT, DELETE, OPTIONS'';
          w3 = Header_Set w2 ''Access-Control-Allow-Headers''
                 ''Content-Type, Authorization, X-Requested-With'';
          w4 = Header_Set w3 ''Access-Control-Allow-Credentials'' ''true''
      in Header_Set w4 ''Access-Control-Max-Age'' ''86400'')"

definition applySecurityHeaders :: "ResponseWriter \<Rightarrow> ResponseWriter" where
  "applySecurityHeaders w =
     (let w1 = Header_Set w ''X-Content-Type-Options'' ''nosniff'';
          w2 = Header_Set w1 ''X-Frame-Options'' ''DENY'';
          w3 = Header_Set w2 ''X-XSS-Protection'' ''1; mode=block'';
          w4 = Header_Set w3 ''Referrer-Policy'' ''strict-origin-when-cross-origin''
      in Header_Set w4 ''Content-Security-Policy''
           (''default-src 'self'; script-src 'self'; style-src 'self' 'unsafe-inline''
              @ [CHR 0x27]))"

record Served =
  middleware :: SecurityMiddleware
    \<comment> \<open>the middleware after the request\<close>
  writer :: ResponseWriter
    \<comment> \<open>the response writer after the request\<close>
  served :: "Request list"
    \<comment> \<open>the calls of \<open>next.ServeHTTP\<close> made for the request\<close>

definition Handler ::
  "SecurityMiddleware \<Rightarrow> http_Handler \<Rightarrow> Time \<Rightarrow> ResponseWriter \<Rightarrow> Request \<Rightarrow> Served"
where
  \<comment> \<open>the function returned by \<open>sm.Handler(next)\<close>, called when the clock reads \<open>now\<close>\<close>
  "Handler sm next now w r =
     (case checkRateLimit now sm r w of
        (sm1, w1, admitted) \<Rightarrow>
          if \<not> admitted
          then \<lparr>middleware = sm1, writer = w1, served = []\<rparr>
          else (let w2 = applyCORS sm1 w1 r;
                    w3 = (if EnableSecurityHeaders (config sm1)
                          then applySecurityHeaders w2 else w2)
                in if Method r = ''OPTIONS''
                   then \<lparr>middleware = sm1, writer = WriteHeader w3 200, served = []\<rparr>
                   else \<lparr>middleware = sm1, writer = next r w3, served = [r]\<rparr>))"

section \<open>The health checker (package server)\<close>

text \<open>
  The provider (package \<open>provider\<close>) and the Slack client are known here by what their
  methods return: \<open>IsReady\<close> gives a flag and an error, \<open>Slack\<close> gives a client or nil,
  \<open>AuthTestContext\<close> gives an error or nil. A method called through a nil pointer is a
  panic. Every call made on the provider or on its client is appended to a log, so that a
  handler that leaves the provider alone is one that leaves the log as it was.
\<close>

record SlackClient =
  AuthTestContext :: "Context \<Rightarrow> string option"
    \<comment> \<open>the error of the \<open>auth.test\<close> round trip, \<open>None\<close> for nil\<close>

record ApiProvider =
  IsReady :: "bool \<times> string option"
  Slack :: "SlackClient option"

datatype call = CallIsReady | CallSlack | CallAuthTestContext Context

definition provider_IsReady :: "ApiProvider option \<Rightarrow> panic + (bool \<times> string option)" where
  "provider_IsReady p =
     (case p of None \<Rightarrow> Inl NilPointerDereference | Some a \<Rightarrow> Inr (IsReady a))"

definition provider_Slack :: "ApiProvider option \<Rightarrow> panic + SlackClient option" where
  "provider_Slack p =
     (case p of None \<Rightarrow> Inl NilPointerDereference | Some a \<Rightarrow> Inr (Slack a))"

definition client_AuthTestContext :: "SlackClient option \<Rightarrow> Context \<Rightarrow> panic + string option" where
  "client_AuthTestContext c ctx =
     (case c of None \<Rightarrow> Inl NilPointerDereference | Some cl \<Rightarrow> Inr (AuthTestContext cl ctx))"

record World =
  Getenv :: Environ
  Now :: Time
    \<comment> \<open>the reading of the clock during the call\<close>
  version_Version :: string
    \<comment> \<open>the variable \<open>version.Version\<close>\<close>
  Marshals :: "HealthResponse \<Rightarrow> bool"
    \<comment> \<open>whether \<open>json.Encoder.Encode\<close> returns without an error on the document\<close>

record HealthChecker =
  provider :: "ApiProvider option"
    \<comment> \<open>\<open>None\<close> is the nil pointer\<close>
  startTime :: Time

definition NewHealthChecker :: "World \<Rightarrow> ApiProvider option \<Rightarrow> HealthChecker" where
  "NewHealthChecker world p = \<lparr>provider = p, startTime = Now world\<rparr>"

definition checkCacheSystem :: "HealthChecker \<Rightarrow> call list \<Rightarrow> panic + (CheckStatus \<times> call list)" where
  "checkCacheSystem h io =
     (if provider h = None then Inr (CheckStatusError, io)
      else (case provider_IsReady (provider h) of
              Inl p \<Rightarrow> Inl p
            | Inr (ready, err) \<Rightarrow>
                if err \<noteq> None \<or> \<not> ready then Inr (CheckStatusError, io @ [CallIsReady])
                else Inr (CheckStatusOK, io @ [CallIsReady])))"

definition checkSlackAPI ::
  "World \<Rightarrow> HealthChecker \<Rightarrow> Context \<Rightarrow> call list \<Rightarrow> panic + (CheckStatus \<times> call list)"
where
  "checkSlackAPI world h ctx io =
     (if provider h = None then Inr (CheckStatusError, io)
      else (case provider_Slack (provider h) of
              Inl p \<Rightarrow> Inl p
            | Inr c \<Rightarrow>
                if c = None then Inr (CheckStatusError, io @ [CallSlack])
                else if Getenv world ''SLACK_MCP_XOXP_TOKEN'' = ''demo'' \<or>
                        (Getenv world ''SLACK_MCP_XOXC_TOKEN'' = ''demo'' \<and>
                         Getenv world ''SLACK_MCP_XOXD_TOKEN'' = ''demo'')
                then Inr (CheckStatusOK, io @ [CallSlack])
                else (case provider_Slack (provider h) of
                        Inl p \<Rightarrow> Inl p
                      | Inr c2 \<Rightarrow>
                          (case client_AuthTestContext c2 ctx of
                             Inl p \<Rightarrow> Inl p
                           | Inr err \<Rightarrow>
                               if err \<noteq> None
                               then Inr (CheckStatusError,
                                         io @ [CallSlack, CallSlack, CallAuthTestContext ctx])
                               else Inr (CheckStatusOK,
                                         io @ [CallSlack, CallSlack, CallAuthTestContext ctx])))))"

definition performHealthChecks ::
  "World \<Rightarrow> HealthChecker \<Rightarrow> Context \<Rightarrow> bool \<Rightarrow> call list
     \<Rightarrow> panic + (HealthResponse \<times> call list)"
where
  "performHealthChecks world h ctx includeReadiness io =
     (case checkCacheSystem h io of
        Inl p \<Rightarrow> Inl p
      | Inr (cacheStatus, io1) \<Rightarrow>
          (let checks1 = Map.empty(''cache'' \<mapsto> cacheStatus);
               overall1 = (if cacheStatus = CheckStatusError
                           then HealthStatusUnhealthy else HealthStatusHealthy);
               details1 = (if cacheStatus = CheckStatusError
                           then Map.empty(''cache'' \<mapsto> ''Cache system not ready'')
                           else Map.empty)
           in case (if includeReadiness
                    then (case checkSlackAPI world h ctx io1 of
                            Inl p \<Rightarrow> Inl p
                          | Inr (slackStatus, io2) \<Rightarrow>
                              Inr (checks1(''slack_api'' \<mapsto> slackStatus),
                                   (if slackStatus = CheckStatusError
                                    then HealthStatusUnhealthy else overall1),
                                   (if slackStatus = CheckStatusError
                                    then details1(''slack_api'' \<mapsto> ''Slack API connectivity failed'')
                                    else details1),
                                   io2))
                    else Inr (checks1, overall1, details1, io1)) of
                Inl p \<Rightarrow> Inl p
              | Inr (checks, overallStatus, details, io3) \<Rightarrow>
                  (let uptime = time_Since (Now world) (startTime h)
                   in Inr (\<lparr>Status = overallStatus,
                            Timestamp = Now world,
                            Version = version_Version world,
                            Checks = checks,
                            Uptime = Some uptime,
                            Details = details\<rparr>,
                           io3))))"

definition writeHealthResponse ::
  "World \<Rightarrow> HealthChecker \<Rightarrow> ResponseWriter \<Rightarrow> HealthResponse \<Rightarrow> ResponseWriter"
where
  "writeHealthResponse world h w response =
     (let w1 = Header_Set w ''Content-Type'' ''application/json'';
          w2 = (if Status response = HealthStatusUnhealthy
                then WriteHeader w1 503
                else WriteHeader w1 200)
      in if \<not> Marshals world response
         then http_Error w2 ''Internal server error'' 500
         else Write w2 (JSONDocument response))"

definition HealthHandler ::
  "World \<Rightarrow> HealthChecker \<Rightarrow> ResponseWriter \<Rightarrow> Request \<Rightarrow> call list
     \<Rightarrow> panic + (ResponseWriter \<times> call list)"
where
  "HealthHandler world h w r io =
     (let ctx = WithTimeout (Now world) (Ctx r) (10 * Second)
      in case performHealthChecks world h ctx False io of
           Inl p \<Rightarrow> Inl p
         | Inr (response, io') \<Rightarrow> Inr (writeHealthResponse world h w response, io'))"

definition ReadinessHandler ::
  "World \<Rightarrow> HealthChecker \<Rightarrow> ResponseWriter \<Rightarrow> Request \<Rightarrow> call list
     \<Rightarrow> panic + (ResponseWriter \<times> call list)"
where
  "ReadinessHandler world h w r io =
     (let ctx = WithTimeout (Now world) (Ctx r) (15 * Second)
      in case performHealthChecks world h ctx True io of
           Inl p \<Rightarrow> Inl p
         | Inr (response, io') \<Rightarrow> Inr (writeHealthResponse world h w response, io'))"

definition LivenessHandler ::
  "World \<Rightarrow> HealthChecker \<Rightarrow> ResponseWriter \<Rightarrow> Request \<Rightarrow> call list
     \<Rightarrow> panic + (ResponseWriter \<times> call list)"
where
  "LivenessHandler world h w r io =
     (let uptime = time_Since (Now world) (startTime h);
          response = \<lparr>Status = HealthStatusHealthy,
                      Timestamp = Now world,
                      Version = version_Version world,
                      Checks = Map.empty(''application'' \<mapsto> CheckStatusOK),
                      Uptime = Some uptime,
                      Details = Map.empty\<rparr>
      in Inr (writeHealthResponse world h w response, io))"

definition jsonKeys :: "HealthResponse \<Rightarrow> string list" where
  \<comment> \<open>the members of the JSON object, by the struct tags: \<open>uptime\<close> and \<open>details\<close> are
      \<open>omitempty\<close>, left out for a nil pointer and for a map without entries\<close>
  "jsonKeys d =
     [''status'', ''timestamp'', ''version'', ''checks'']
       @ (if Uptime d = None then [] else [''uptime''])
       @ (if dom (Details d) = {} then [] else [''details''])"

section \<open>Runs and sample inputs\<close>

fun checkRateLimits ::
  "SecurityMiddleware \<Rightarrow> (Time \<times> Request \<times> ResponseWriter) list \<Rightarrow> SecurityMiddleware \<times> bool list"
where
  \<comment> \<open>consecutive calls of \<open>checkRateLimit\<close>, each on the middleware the call before left\<close>
  "checkRateLimits sm [] = (sm, [])"
| "checkRateLimits sm ((now, r, w) # rest) =
     (case checkRateLimit now sm r w of
        (sm1, w1, ok) \<Rightarrow>
          (case checkRateLimits sm1 rest of
             (sm2, oks) \<Rightarrow> (sm2, ok # oks)))"

definition envRateLimit :: "string \<Rightarrow> Environ" where
  \<comment> \<open>an environment that sets \<open>SLACK_MCP_RATE_LIMIT\<close> and nothing else\<close>
  "envRateLimit v k = (if k = ''SLACK_MCP_RATE_LIMIT'' then v else [])"

definition smInterval :: "Duration \<Rightarrow> SecurityMiddleware" where
  \<comment> \<open>the middleware \<open>NewSecurityMiddleware\<close> builds when only the rate limit is set\<close>
  "smInterval d =
     \<lparr>config = \<lparr>CORSOrigins = [], EnableSecurityHeaders = True, RateLimit = d\<rparr>,
      rateLimiters = Map.empty\<rparr>"

definition smWith :: "string list \<Rightarrow> bool \<Rightarrow> Duration \<Rightarrow> SecurityMiddleware" where
  "smWith origins enabled d =
     \<lparr>config = \<lparr>CORSOrigins = origins, EnableSecurityHeaders = enabled, RateLimit = d\<rparr>,
      rateLimiters = Map.empty\<rparr>"

definition testRequest :: "string \<Rightarrow> string \<Rightarrow> string \<Rightarrow> Request" where
  \<comment> \<open>\<open>httptest.NewRequest(m, "/test", nil)\<close> with the given \<open>Origin\<close> header (none when
      empty) and remote address\<close>
  "testRequest m origin addr =
     \<lparr>Method = m, URLPath = ''/test'',
      Header = (if origin = [] then Map.empty else Map.empty(''Origin'' \<mapsto> origin)),
      RemoteAddr = addr, Ctx = \<lparr>deadline = None\<rparr>\<rparr>"

definition okHandler :: http_Handler where
  \<comment> \<open>the downstream handler of the tests: status 200 and the body \<open>OK\<close>\<close>
  "okHandler r w = Write (WriteHeader w 200) (Text ''OK'')"

definition worldAt :: "Time \<Rightarrow> bool \<Rightarrow> World" where
  \<comment> \<open>an empty environment, version 1.0.0, and an encoder that always succeeds or always
      fails\<close>
  "worldAt t enc =
     \<lparr>Getenv = (\<lambda>k. []), Now = t, version_Version = ''1.0.0'', Marshals = (\<lambda>d. enc)\<rparr>"

definition nilChecker :: HealthChecker where
  \<comment> \<open>\<open>NewHealthChecker(nil, logger)\<close> built when the clock read 0\<close>
  "nilChecker = \<lparr>provider = None, startTime = 0\<rparr>"

definition readyChecker :: HealthChecker where
  \<comment> \<open>a provider that is ready, with a client whose \<open>auth.test\<close> succeeds\<close>
  "readyChecker =
     \<lparr>provider = Some \<lparr>IsReady = (True, None),
                         Slack = Some \<lparr>AuthTestContext = (\<lambda>ctx. None)\<rparr>\<rparr>,
      startTime = 0\<rparr>"

definition noClientChecker :: HealthChecker where
  \<comment> \<open>\<open>&provider.ApiProvider{}\<close>: not ready, and no client\<close>
  "noClientChecker =
     \<lparr>provider = Some \<lparr>IsReady = (False, Some ''not ready''), Slack = None\<rparr>,
      startTime = 0\<rparr>"

definition healthyDocument :: HealthResponse where
  "healthyDocument =
     \<lparr>Status = HealthStatusHealthy, Timestamp = 5, Version = ''1.0.0'',
      Checks = Map.empty(''cache'' \<mapsto> CheckStatusOK), Uptime = None, Details = Map.empty\<rparr>"

definition nilHealthDocument :: HealthResponse where
  \<comment> \<open>the document of \<open>/health\<close> for \<open>nilChecker\<close> when the clock reads 5\<close>
  "nilHealthDocument =
     \<lparr>Status = HealthStatusUnhealthy, Timestamp = 5, Version = ''1.0.0'',
      Checks = Map.empty(''cache'' \<mapsto> CheckStatusError), Uptime = Some 5,
      Details = Map.empty(''cache'' \<mapsto> ''Cache system not ready'')\<rparr>"

definition spentBucket :: "Duration \<Rightarrow> Time \<Rightarrow> Limiter" where
  \<comment> \<open>the bucket of a client whose only token was taken at \<open>t\<close>, for the interval \<open>d\<close>
      between requests\<close>
  "spentBucket d t = \<lparr>limit = perSecond d, burst = 1, tokens = 0, last_tm = t\<rparr>"

section \<open>Rounding to a double\<close>

text \<open>
  Rounding is monotone, commutes with the sign, and leaves zero and one as they are. These
  facts carry a bound on the time between two requests through the arithmetic of the
  limiter.
\<close>

lemma roundHalfEven_of_int: "roundHalfEven (of_int n) = n"
  by (simp add: roundHalfEven_def)

lemma roundHalfEven_floor:
  "roundHalfEven q = \<lfloor>q\<rfloor> \<or> roundHalfEven q = \<lfloor>q\<rfloor> + 1"
  by (simp add: roundHalfEven_def Let_def)

lemma roundHalfEven_mono:
  assumes "q \<le> q'"
  shows "roundHalfEven q \<le> roundHalfEven q'"
proof (cases "\<lfloor>q\<rfloor> = \<lfloor>q'\<rfloor>")
  case True
  have "q - of_int \<lfloor>q'\<rfloor> \<le> q' - of_int \<lfloor>q'\<rfloor>" using assms by simp
  then show ?thesis
    by (simp add: roundHalfEven_def Let_def True)
next
  case False
  have "\<lfloor>q\<rfloor> \<le> \<lfloor>q'\<rfloor>" using assms by (rule floor_mono)
  then have "\<lfloor>q\<rfloor> + 1 \<le> \<lfloor>q'\<rfloor>" using False by simp
  then show ?thesis
    using roundHalfEven_floor [of q] roundHalfEven_floor [of q'] by linarith
qed

lemma roundHalfEven_minus: "roundHalfEven (- q) = - roundHalfEven q"
proof (cases "q = of_int \<lfloor>q\<rfloor>")
  case True
  then obtain n where "q = of_int n" ..
  then show ?thesis
    by (simp add: roundHalfEven_of_int flip: of_int_minus)
next
  case False
  have fl: "\<lfloor>- q\<rfloor> = - \<lfloor>q\<rfloor> - 1"
    using False by (simp add: floor_minus ceiling_altdef)
  have r: "0 < q - of_int \<lfloor>q\<rfloor>"
    using False by (metis diff_gt_0_iff_gt of_int_floor_le order_less_le)
  show ?thesis
    using r by (auto simp: roundHalfEven_def Let_def fl)
qed

lemma ilog2_bounds:
  assumes "0 < y"
  shows "2 powi (ilog2 y) \<le> y" and "y < 2 powi (ilog2 y + 1)"
proof -
  show "2 powi (ilog2 y) \<le> y"
  proof (cases "1 \<le> y")
    case True
    then have n: "0 < \<lfloor>y\<rfloor>" by simp
    have b: "1 \<le> bitlen \<lfloor>y\<rfloor>" using n by (simp add: bitlen_alt_def)
    have "(2::int) ^ nat (bitlen \<lfloor>y\<rfloor> - 1) \<le> \<lfloor>y\<rfloor>" using bitlen_bounds [OF n] ..
    then have "(of_int ((2::int) ^ nat (bitlen \<lfloor>y\<rfloor> - 1)) :: rat) \<le> of_int \<lfloor>y\<rfloor>"
      by (simp only: of_int_le_iff)
    also have "\<dots> \<le> y" by simp
    finally show ?thesis
      using True b by (simp add: ilog2_def power_int_def)
  next
    case False
    then have y1: "y < 1" by simp
    let ?m = "\<lceil>1 / y\<rceil> - 1"
    have "1 < 1 / y" using assms y1 by simp
    then have m: "0 < ?m" by (simp add: less_ceiling_iff)
    have b: "1 \<le> bitlen ?m" using m by (simp add: bitlen_alt_def)
    have "?m < 2 ^ nat (bitlen ?m)" using bitlen_bounds [OF m] ..
    then have "\<lceil>1 / y\<rceil> \<le> 2 ^ nat (bitlen ?m)" by simp
    then have "(of_int \<lceil>1 / y\<rceil> :: rat) \<le> of_int (2 ^ nat (bitlen ?m))"
      by (simp only: of_int_le_iff)
    with le_of_int_ceiling [of "1 / y"]
    have "1 / y \<le> of_int (2 ^ nat (bitlen ?m))"
      by (rule order_trans)
    then have "1 / y \<le> 2 ^ nat (bitlen ?m)" by simp
    then have "1 / 2 ^ nat (bitlen ?m) \<le> y"
      using assms by (simp add: field_simps)
    then show ?thesis
      using False b by (simp add: ilog2_def power_int_def field_simps)
  qed
  show "y < 2 powi (ilog2 y + 1)"
  proof (cases "1 \<le> y")
    case True
    then have n: "0 < \<lfloor>y\<rfloor>" by simp
    have b: "1 \<le> bitlen \<lfloor>y\<rfloor>" using n by (simp add: bitlen_alt_def)
    have "\<lfloor>y\<rfloor> < 2 ^ nat (bitlen \<lfloor>y\<rfloor>)" using bitlen_bounds [OF n] ..
    then have "\<lfloor>y\<rfloor> + 1 \<le> 2 ^ nat (bitlen \<lfloor>y\<rfloor>)" by simp
    then have "(of_int (\<lfloor>y\<rfloor> + 1) :: rat) \<le> of_int (2 ^ nat (bitlen \<lfloor>y\<rfloor>))"
      by (simp only: of_int_le_iff)
    moreover have "y < of_int (\<lfloor>y\<rfloor> + 1)" by linarith
    ultimately have "y < 2 ^ nat (bitlen \<lfloor>y\<rfloor>)" by simp
    then show ?thesis
      using True b by (simp add: ilog2_def power_int_def)
  next
    case False
    then have y1: "y < 1" by simp
    let ?m = "\<lceil>1 / y\<rceil> - 1"
    have "1 < 1 / y" using assms y1 by simp
    then have m: "0 < ?m" by (simp add: less_ceiling_iff)
    have b: "1 \<le> bitlen ?m" using m by (simp add: bitlen_alt_def)
    have "(2::int) ^ nat (bitlen ?m - 1) \<le> ?m" using bitlen_bounds [OF m] ..
    then have "(of_int ((2::int) ^ nat (bitlen ?m - 1)) :: rat) \<le> of_int ?m"
      by (simp only: of_int_le_iff)
    also have "\<dots> < 1 / y" by linarith
    finally have lt: "2 ^ nat (bitlen ?m - 1) < 1 / y" by simp
    then have "y < 1 / 2 ^ nat (bitlen ?m - 1)"
      using assms by (simp add: field_simps)
    moreover have "(2::rat) powi (- bitlen ?m + 1) = 1 / 2 ^ nat (bitlen ?m - 1)"
    proof (cases "bitlen ?m = 1")
      case True
      then show ?thesis by simp
    next
      case False
      then have "\<not> 0 \<le> - bitlen ?m + 1" using b by simp
      then show ?thesis by (simp add: power_int_def field_simps)
    qed
    ultimately show ?thesis
      using False by (simp add: ilog2_def)
  qed
qed

lemma ilog2_mono:
  assumes "0 < x" and "x \<le> y"
  shows "ilog2 x \<le> ilog2 y"
proof (rule ccontr)
  assume "\<not> ilog2 x \<le> ilog2 y"
  then have "ilog2 y + 1 \<le> ilog2 x" by simp
  then have "(2::rat) powi (ilog2 y + 1) \<le> 2 powi (ilog2 x)"
    by (intro power_int_increasing) simp_all
  also have "\<dots> \<le> x" using assms(1) by (rule ilog2_bounds)
  also have "\<dots> \<le> y" by (rule assms(2))
  finally show False
    using ilog2_bounds(2) [of y] assms by simp
qed

lemma float64_zero: "float64 0 = 0"
  by (simp add: float64_def)

lemma float64_minus: "float64 (- x) = - float64 x"
  by (simp add: float64_def Let_def roundHalfEven_minus)

lemma ulp_scale:
  "(2::rat) powi e = 2 ^ 52 * 2 powi (e - 52)"
  "(2::rat) powi (e + 1) = 2 ^ 53 * 2 powi (e - 52)"
proof -
  have "e = 52 + (e - 52)" by simp
  then have "(2::rat) powi e = 2 powi (52 + (e - 52))" by (rule arg_cong)
  also have "\<dots> = 2 powi 52 * 2 powi (e - 52)"
    by (subst power_int_add) simp_all
  finally show "(2::rat) powi e = 2 ^ 52 * 2 powi (e - 52)" by simp
  have "e + 1 = 53 + (e - 52)" by simp
  then have "(2::rat) powi (e + 1) = 2 powi (53 + (e - 52))" by (rule arg_cong)
  also have "\<dots> = 2 powi 53 * 2 powi (e - 52)"
    by (subst power_int_add) simp_all
  finally show "(2::rat) powi (e + 1) = 2 ^ 53 * 2 powi (e - 52)" by simp
qed

lemma float64_binade:
  assumes "0 < x"
  shows "2 powi (ilog2 x) \<le> float64 x" and "float64 x \<le> 2 powi (ilog2 x + 1)"
proof -
  define u :: rat where "u = 2 powi (ilog2 x - 52)"
  have u: "0 < u" by (simp add: u_def)
  have f: "float64 x = of_int (roundHalfEven (x / u)) * u"
    using assms by (simp add: float64_def Let_def u_def)
  have lo: "2 ^ 52 * u \<le> x"
    using ilog2_bounds(1) [OF assms] by (simp add: ulp_scale(1) [of "ilog2 x"] u_def)
  have hi: "x \<le> 2 ^ 53 * u"
    using ilog2_bounds(2) [OF assms] by (simp add: ulp_scale(2) [of "ilog2 x"] u_def)
  have "(of_int (2 ^ 52) :: rat) \<le> x / u"
    using lo u by (simp add: field_simps)
  then have "roundHalfEven (of_int (2 ^ 52)) \<le> roundHalfEven (x / u)"
    by (rule roundHalfEven_mono)
  then have "(2::int) ^ 52 \<le> roundHalfEven (x / u)"
    by (simp only: roundHalfEven_of_int)
  then have "(of_int ((2::int) ^ 52) :: rat) \<le> of_int (roundHalfEven (x / u))"
    by (simp only: of_int_le_iff)
  then have "2 ^ 52 * u \<le> of_int (roundHalfEven (x / u)) * u"
    using u by simp
  then show "2 powi (ilog2 x) \<le> float64 x"
    by (simp add: f ulp_scale(1) [of "ilog2 x"] u_def)
  have "x / u \<le> (of_int (2 ^ 53) :: rat)"
    using hi u by (simp add: field_simps)
  then have "roundHalfEven (x / u) \<le> roundHalfEven (of_int (2 ^ 53))"
    by (rule roundHalfEven_mono)
  then have "roundHalfEven (x / u) \<le> (2::int) ^ 53"
    by (simp only: roundHalfEven_of_int)
  then have "(of_int (roundHalfEven (x / u)) :: rat) \<le> of_int ((2::int) ^ 53)"
    by (simp only: of_int_le_iff)
  then have "of_int (roundHalfEven (x / u)) * u \<le> 2 ^ 53 * u"
    using u by simp
  then show "float64 x \<le> 2 powi (ilog2 x + 1)"
    by (simp add: f ulp_scale(2) [of "ilog2 x"] u_def)
qed

lemma float64_pos: "0 < x \<Longrightarrow> 0 < float64 x"
proof -
  assume x: "0 < x"
  have "(0::rat) < 2 powi (ilog2 x)" by simp
  also have "\<dots> \<le> float64 x" using x by (rule float64_binade)
  finally show ?thesis .
qed

lemma float64_mono_pos:
  assumes "0 < x" and "x \<le> y"
  shows "float64 x \<le> float64 y"
proof (cases "ilog2 x = ilog2 y")
  case True
  define u :: rat where "u = 2 powi (ilog2 x - 52)"
  have u: "0 < u" by (simp add: u_def)
  have y: "0 < y" using assms by simp
  have "x / u \<le> y / u" using assms(2) u by (simp add: divide_right_mono)
  then have "roundHalfEven (x / u) \<le> roundHalfEven (y / u)"
    by (rule roundHalfEven_mono)
  then have "(of_int (roundHalfEven (x / u)) :: rat) \<le> of_int (roundHalfEven (y / u))"
    by (simp only: of_int_le_iff)
  then have "of_int (roundHalfEven (x / u)) * u \<le> of_int (roundHalfEven (y / u)) * u"
    using u by simp
  then show ?thesis
    using assms(1) y by (simp add: float64_def Let_def True [symmetric] u_def)
next
  case False
  have y: "0 < y" using assms by simp
  have "ilog2 x \<le> ilog2 y" using assms by (rule ilog2_mono)
  then have "ilog2 x + 1 \<le> ilog2 y" using False by simp
  then have "(2::rat) powi (ilog2 x + 1) \<le> 2 powi (ilog2 y)"
    by (intro power_int_increasing) simp_all
  with float64_binade(2) [OF assms(1)] have "float64 x \<le> 2 powi (ilog2 y)"
    by (rule order_trans)
  also have "\<dots> \<le> float64 y" using y by (rule float64_binade)
  finally show ?thesis .
qed

lemma float64_mono:
  assumes "x \<le> y"
  shows "float64 x \<le> float64 y"
proof -
  consider "0 < x" | "x = 0" | "x < 0" "y < 0" | "x < 0" "0 \<le> y" by linarith
  then show ?thesis
  proof cases
    case 1
    then show ?thesis using assms by (rule float64_mono_pos)
  next
    case 2
    show ?thesis
    proof (cases "y = 0")
      case True
      then show ?thesis by (simp add: 2)
    next
      case False
      then have "0 < y" using assms 2 by simp
      then have "0 < float64 y" by (rule float64_pos)
      then show ?thesis by (simp add: 2 float64_zero)
    qed
  next
    case 3
    have "float64 (- y) \<le> float64 (- x)"
      using 3 assms by (intro float64_mono_pos) simp_all
    then show ?thesis by (simp add: float64_minus)
  next
    case 4
    have "0 < float64 (- x)" using 4 by (intro float64_pos) simp
    then have a: "float64 x < 0" by (simp add: float64_minus)
    have "0 \<le> float64 y"
    proof (cases "y = 0")
      case True
      then show ?thesis by (simp add: float64_zero)
    next
      case False
      then have "0 < y" using 4 by simp
      then have "0 < float64 y" by (rule float64_pos)
      then show ?thesis by simp
    qed
    then show ?thesis using a by simp
  qed
qed

lemma float64_one: "float64 1 = 1"
  by code_simp

lemma float64_minus_one: "float64 (- 1) = - 1"
  by (simp add: float64_minus float64_one)

lemma float64_nonneg: "0 \<le> x \<Longrightarrow> 0 \<le> float64 x"
  using float64_mono [of 0 x] by (simp add: float64_zero)

section \<open>The token bucket\<close>

text \<open>
  A full bucket admits a call at any rate above zero. A bucket emptied at \<open>t1\<close> refuses
  a call at \<open>t2\<close> as long as the tokens that the time between the two brings back,
  rounded as the limiter rounds them, leave a wait of at least one nanosecond. For one
  token a second that is every \<open>t2\<close> up to 999999998 nanoseconds after \<open>t1\<close>; one
  nanosecond later the wait rounds to less than a nanosecond, the conversion to a Duration
  drops it, and the call is admitted.
\<close>

lemma truncQuo_nonneg: "0 \<le> a \<Longrightarrow> 0 < b \<Longrightarrow> truncQuo a b = a div b"
  by (cases "a = 0") (simp_all add: truncQuo_def)

lemma truncRem_nonneg: "0 \<le> a \<Longrightarrow> 0 < b \<Longrightarrow> truncRem a b = a mod b"
  by (simp add: truncRem_def truncQuo_nonneg minus_mult_div_eq_mod)

lemma Duration_Seconds_zero: "Duration_Seconds 0 = 0"
  by (simp add: Duration_Seconds_def truncQuo_def truncRem_def float64_zero)

lemma Duration_Seconds_nonneg:
  assumes "0 \<le> d"
  shows "0 \<le> Duration_Seconds d"
proof -
  have s: "(0::int) < Second" by (simp add: Second_def)
  have "(0::rat) \<le> float64 (of_int (d mod Second)) / 1000000000"
    using s by (simp add: float64_nonneg)
  then have "0 \<le> float64 (float64 (of_int (d mod Second)) / 1000000000)"
    by (rule float64_nonneg)
  moreover have "0 \<le> float64 (of_int (d div Second))"
    using assms s by (simp add: float64_nonneg pos_imp_zdiv_nonneg_iff)
  ultimately have "0 \<le> float64 (of_int (d div Second))
                     + float64 (float64 (of_int (d mod Second)) / 1000000000)"
    by simp
  then show ?thesis
    using assms s
    by (simp add: Duration_Seconds_def Let_def truncQuo_nonneg truncRem_nonneg float64_nonneg)
qed

lemma Duration_Seconds_small:
  assumes "0 \<le> e" and "e < Second"
  shows "Duration_Seconds e = float64 (float64 (float64 (of_int e) / 1000000000))"
proof -
  have s: "(0::int) < Second" by (simp add: Second_def)
  show ?thesis
    using assms s
    by (simp add: Duration_Seconds_def Let_def truncQuo_nonneg truncRem_nonneg float64_zero)
qed

lemma tokensFromDuration_nonneg:
  assumes "0 \<le> d"
  shows "0 \<le> tokensFromDuration q d"
proof (cases "q \<le> 0")
  case True
  then show ?thesis by (simp add: tokensFromDuration_def)
next
  case False
  then have "0 \<le> Duration_Seconds d * q"
    using Duration_Seconds_nonneg [OF assms] by simp
  then show ?thesis
    using False by (simp add: tokensFromDuration_def float64_nonneg)
qed

lemma tokensFromDuration_mono:
  assumes q: "0 < q" and e: "0 \<le> e" "e \<le> m" "m < Second"
  shows "tokensFromDuration q e \<le> tokensFromDuration q m"
proof -
  have "(of_int e :: rat) \<le> of_int m" using e by simp
  then have "float64 (of_int e) \<le> float64 (of_int m)" by (rule float64_mono)
  then have "float64 (of_int e) / 1000000000 \<le> float64 (of_int m) / 1000000000"
    by (simp add: divide_right_mono)
  then have "float64 (float64 (of_int e) / 1000000000)
             \<le> float64 (float64 (of_int m) / 1000000000)"
    by (rule float64_mono)
  then have "Duration_Seconds e \<le> Duration_Seconds m"
    using e by (simp add: Duration_Seconds_small float64_mono)
  then have "Duration_Seconds e * q \<le> Duration_Seconds m * q"
    using q by simp
  then show ?thesis
    using q by (simp add: tokensFromDuration_def float64_mono)
qed

lemma Allow_full:
  assumes q: "0 < q"
  shows "Allow (NewLimiter (Rate q) 1) t
         = (\<lparr>limit = Rate q, burst = 1, tokens = 0, last_tm = t\<rparr>, True)"
proof -
  define l where "l = (if t < zeroTime then t else zeroTime)"
  have el: "0 \<le> time_Sub t l"
    by (simp add: time_Sub_def l_def Let_def maxDuration_def minDuration_def)
  have "0 \<le> tokensFromDuration q (time_Sub t l)"
    using el by (rule tokensFromDuration_nonneg)
  then have "float64 1 \<le> float64 (1 + tokensFromDuration q (time_Sub t l))"
    by (intro float64_mono) simp
  then have "1 \<le> float64 (1 + tokensFromDuration q (time_Sub t l))"
    by (simp add: float64_one)
  then have adv: "advance (NewLimiter (Rate q) 1) q t = (t, 1)"
    by (auto simp: advance_def NewLimiter_def Let_def l_def float64_one)
  show ?thesis
    using q adv
    by (simp add: Allow_def reserveN_def Let_def NewLimiter_def float64_one float64_zero)
qed

lemma Allow_spent:
  assumes q: "0 < q" and m: "0 \<le> m" "m < Second"
    and T: "T = float64 (0 + tokensFromDuration q m)" "T < 1"
    and k: "k = - float64 (T - 1)" "0 < k"
    and lo: "1 \<le> float64 (float64 (k / q) * 1000000000)"
    and hi: "float64 (float64 (1 / q) * 1000000000) < 2 ^ 63"
    and soon: "t2 \<le> t1 + m"
  shows "Allow \<lparr>limit = Rate q, burst = 1, tokens = 0, last_tm = t1\<rparr> t2
         = (\<lparr>limit = Rate q, burst = 1, tokens = 0, last_tm = t1\<rparr>, False)"
proof -
  define l where "l = (if t2 < t1 then t2 else t1)"
  define e where "e = time_Sub t2 l"
  have e: "0 \<le> e" "e \<le> m"
    using soon m
    by (auto simp: l_def e_def time_Sub_def Let_def maxDuration_def minDuration_def Second_def)
  define toks0 where "toks0 = float64 (0 + tokensFromDuration q e)"
  have d0: "0 \<le> tokensFromDuration q e" using e(1) by (rule tokensFromDuration_nonneg)
  have dm: "tokensFromDuration q e \<le> tokensFromDuration q m"
    using q e m(2) by (rule tokensFromDuration_mono)
  have t0: "0 \<le> toks0" unfolding toks0_def using d0 by (intro float64_nonneg) simp
  have "toks0 \<le> T" unfolding toks0_def T(1) using dm by (intro float64_mono) simp
  then have t1: "toks0 < 1" using T(2) by simp
  have adv: "advance \<lparr>limit = Rate q, burst = 1, tokens = 0, last_tm = t1\<rparr> q t2 = (t2, toks0)"
  proof (cases "t2 < t1")
    case True
    then have "toks0 = float64 (0 + tokensFromDuration q (time_Sub t2 t2))"
      by (simp add: toks0_def e_def l_def)
    then show ?thesis
      using True t1 by (simp add: advance_def Let_def float64_one)
  next
    case False
    then have "toks0 = float64 (0 + tokensFromDuration q (time_Sub t2 t1))"
      by (simp add: toks0_def e_def l_def)
    then show ?thesis
      using False t1 by (simp add: advance_def Let_def float64_one)
  qed
  define x where "x = - float64 (toks0 - 1)"
  have "float64 (toks0 - 1) \<le> float64 (T - 1)"
    using \<open>toks0 \<le> T\<close> by (intro float64_mono) simp
  then have xk: "k \<le> x" by (simp add: x_def k(1))
  have "float64 (- 1) \<le> float64 (toks0 - 1)"
    using t0 by (intro float64_mono) simp
  then have x1: "x \<le> 1" by (simp add: x_def float64_minus_one)
  have xpos: "0 < x" using xk k(2) by simp
  define dur where "dur = float64 (float64 (x / q) * 1000000000)"
  have "k / q \<le> x / q" using xk q by (simp add: divide_right_mono)
  then have "float64 (k / q) \<le> float64 (x / q)" by (rule float64_mono)
  then have "float64 (k / q) * 1000000000 \<le> float64 (x / q) * 1000000000" by simp
  then have "float64 (float64 (k / q) * 1000000000) \<le> dur"
    unfolding dur_def by (rule float64_mono)
  with lo have dlo: "1 \<le> dur" by simp
  have "x / q \<le> 1 / q" using x1 q by (simp add: divide_right_mono)
  then have "float64 (x / q) \<le> float64 (1 / q)" by (rule float64_mono)
  then have "float64 (x / q) * 1000000000 \<le> float64 (1 / q) * 1000000000" by simp
  then have "dur \<le> float64 (float64 (1 / q) * 1000000000)"
    unfolding dur_def by (rule float64_mono)
  with hi have dhi: "dur < 2 ^ 63" by simp
  have f1: "1 \<le> \<lfloor>dur\<rfloor>" using dlo by (simp add: le_floor_iff)
  have f2: "\<lfloor>dur\<rfloor> < 2 ^ 63" using dhi by (simp add: floor_less_iff)
  have w: "0 < durationFromTokens q x"
    using q dlo dhi f1 f2
    by (simp add: durationFromTokens_def Let_def float_to_int64_def flip: dur_def)
  have neg: "float64 (toks0 - 1) < 0" using xpos by (simp add: x_def)
  show ?thesis
    using q adv w neg
    by (simp add: Allow_def reserveN_def Let_def float64_one flip: x_def)
qed

lemma perSecond_Second: "perSecond Second = Rate 1"
  by code_simp

lemma perSecond_Minute: "perSecond Minute = Rate (4803839602528529 / 288230376151711744)"
  by code_simp

lemma Allow_spent_Second:
  assumes "t2 + 2 \<le> t1 + Second"
  shows "Allow (spentBucket Second t1) t2 = (spentBucket Second t1, False)"
proof -
  have q: "(0::rat) < 1" by simp
  have m: "(0::int) \<le> 999999998" "999999998 < Second" by (simp_all add: Second_def)
  have T: "float64 (0 + tokensFromDuration 1 999999998) < 1" by code_simp
  have k: "0 < - float64 (float64 (0 + tokensFromDuration 1 999999998) - 1)" by code_simp
  have lo: "1 \<le> float64 (float64
      (- float64 (float64 (0 + tokensFromDuration 1 999999998) - 1) / 1) * 1000000000)"
    by code_simp
  have hi: "float64 (float64 (1 / 1) * 1000000000) < 2 ^ 63" by code_simp
  have soon: "t2 \<le> t1 + 999999998" using assms by (simp add: Second_def)
  show ?thesis
    unfolding spentBucket_def perSecond_Second
    by (rule Allow_spent [OF q m refl T refl k lo hi soon])
qed

lemma Allow_spent_Minute:
  assumes "t2 \<le> t1"
  shows "Allow (spentBucket Minute t1) t2 = (spentBucket Minute t1, False)"
proof -
  define q :: rat where "q = 4803839602528529 / 288230376151711744"
  have q: "0 < q" by (simp add: q_def)
  have m: "(0::int) \<le> 0" "0 < Second" by (simp_all add: Second_def)
  have T: "float64 (0 + tokensFromDuration q 0) < 1" unfolding q_def by code_simp
  have k: "0 < - float64 (float64 (0 + tokensFromDuration q 0) - 1)"
    unfolding q_def by code_simp
  have lo: "1 \<le> float64 (float64
      (- float64 (float64 (0 + tokensFromDuration q 0) - 1) / q) * 1000000000)"
    unfolding q_def by code_simp
  have hi: "float64 (float64 (1 / q) * 1000000000) < 2 ^ 63" unfolding q_def by code_simp
  have soon: "t2 \<le> t1 + 0" using assms by simp
  show ?thesis
    unfolding spentBucket_def perSecond_Minute q_def [symmetric]
    by (rule Allow_spent [OF q m refl T refl k lo hi soon])
qed

lemma last_nanosecond_admitted:
  "snd (Allow (spentBucket Second 0) 999999999) = True"
  by code_simp

section \<open>The rate-limit check\<close>

lemma storeLimiter_held:
  "rateLimiters sm ip = Some b \<Longrightarrow> storeLimiter sm ip b = sm"
  by (simp add: storeLimiter_def map_upd_triv)

lemma checkRateLimit_first:
  assumes nz: "RateLimit (config sm) \<noteq> 0"
    and none: "rateLimiters sm (getClientIP r) = None"
    and rate: "perSecond (RateLimit (config sm)) = Rate q" "0 < q"
  shows "checkRateLimit now sm r w
         = (sm\<lparr>rateLimiters := (rateLimiters sm)(getClientIP r \<mapsto> spentBucket (RateLimit (config sm)) now)\<rparr>,
            w, True)"
proof -
  have g: "getRateLimiter sm (getClientIP r)
           = (sm\<lparr>rateLimiters := (rateLimiters sm)(getClientIP r \<mapsto> NewLimiter (Rate q) 1)\<rparr>,
              NewLimiter (Rate q) 1)"
    using none by (simp add: getRateLimiter_def Let_def rate(1))
  show ?thesis
    using nz
    by (simp add: checkRateLimit_def Let_def g Allow_full [OF rate(2)] storeLimiter_def
        spentBucket_def rate(1))
qed

lemma checkRateLimit_again:
  assumes nz: "RateLimit (config sm) \<noteq> 0"
    and some: "rateLimiters sm (getClientIP r) = Some b"
    and deny: "Allow b now = (b, False)"
  shows "checkRateLimit now sm r w
         = (sm, writeErrorResponse now w r 429 ''RATE_LIMIT_EXCEEDED''
                  ''Too many requests from this client''
                  (rateLimitDetails (RateLimit (config sm))), False)"
proof -
  have g: "getRateLimiter sm (getClientIP r) = (sm, b)"
    using some by (simp add: getRateLimiter_def)
  show ?thesis
    using nz by (simp add: checkRateLimit_def Let_def g deny storeLimiter_held [OF some])
qed

lemma checkRateLimit_disabled:
  "RateLimit (config sm) = 0 \<Longrightarrow> checkRateLimit now sm r w = (sm, w, True)"
  by (simp add: checkRateLimit_def)

lemma checkRateLimit_config:
  "config (fst (checkRateLimit now sm r w)) = config sm"
  by (simp add: checkRateLimit_def getRateLimiter_def storeLimiter_def Let_def
      split: option.splits prod.splits)

lemma checkRateLimit_admitted_writer:
  "snd (snd (checkRateLimit now sm r w)) \<Longrightarrow> fst (snd (checkRateLimit now sm r w)) = w"
  by (simp add: checkRateLimit_def Let_def split: prod.splits if_splits)

lemma writeErrorResponse_code:
  "\<not> wroteHeader w \<Longrightarrow> code (writeErrorResponse now w r c e m d) = c"
  by (simp add: writeErrorResponse_def Let_def Header_Set_def WriteHeader_def Write_def)

lemma checkRateLimit_throttled_code:
  assumes "\<not> snd (snd (checkRateLimit now sm r w))" and "\<not> wroteHeader w"
  shows "code (fst (snd (checkRateLimit now sm r w))) = 429"
  using assms
  by (auto simp: checkRateLimit_def Let_def writeErrorResponse_code
      split: prod.splits if_splits)

section \<open>The handler\<close>

lemma corsLoop_wroteHeader: "wroteHeader (fst (corsLoop xs origin w)) = wroteHeader w"
  by (induction xs) (simp_all add: Header_Set_def)

lemma applyCORS_wroteHeader: "wroteHeader (applyCORS sm w r) = wroteHeader w"
  by (simp add: applyCORS_def Let_def Header_Set_def corsLoop_wroteHeader)

lemma applySecurityHeaders_wroteHeader: "wroteHeader (applySecurityHeaders w) = wroteHeader w"
  by (simp add: applySecurityHeaders_def Let_def Header_Set_def)

lemma Handler_admitted:
  assumes "checkRateLimit now sm r w = (sm1, w, True)" and "Method r \<noteq> ''OPTIONS''"
  shows "Handler sm next now w r
         = \<lparr>middleware = sm1,
            writer = next r (if EnableSecurityHeaders (config sm1)
                             then applySecurityHeaders (applyCORS sm1 w r)
                             else applyCORS sm1 w r),
            served = [r]\<rparr>"
  using assms by (simp add: Handler_def Let_def)

lemma Handler_preflight:
  assumes "checkRateLimit now sm r w = (sm1, w, True)" and "Method r = ''OPTIONS''"
  shows "Handler sm next now w r
         = \<lparr>middleware = sm1,
            writer = WriteHeader (if EnableSecurityHeaders (config sm1)
                             then applySecurityHeaders (applyCORS sm1 w r)
                             else applyCORS sm1 w r) 200,
            served = []\<rparr>"
  using assms by (simp add: Handler_def Let_def)

lemma Handler_throttled:
  assumes "checkRateLimit now sm r w = (sm1, w1, False)"
  shows "Handler sm next now w r = \<lparr>middleware = sm1, writer = w1, served = []\<rparr>"
  using assms by (simp add: Handler_def)

lemma parseRateLimit_60:
  assumes "env ''SLACK_MCP_RATE_LIMIT'' = ''60''"
  shows "parseRateLimit env = Inr Second"
  using assms
  by (simp add: parseRateLimit_def Atoi_def isDigit_def decimal_def digitVal_def
      int_quo_def truncQuo_def Minute_def Second_def Let_def)

lemma getClientIP_testRequest_1:
  "getClientIP (testRequest m origin ''192.168.1.1:12345'') = ''192.168.1.1''"
  by (simp add: getClientIP_def testRequest_def Header_Get_def Contains_def Let_def
      SplitHostPort_def LastIndexByte_def)

lemma getClientIP_testRequest_1b:
  "getClientIP (testRequest m origin ''192.168.1.1:12346'') = ''192.168.1.1''"
  by (simp add: getClientIP_def testRequest_def Header_Get_def Contains_def Let_def
      SplitHostPort_def LastIndexByte_def)

lemma getClientIP_testRequest_2:
  "getClientIP (testRequest m origin ''192.168.1.2:12345'') = ''192.168.1.2''"
  by (simp add: getClientIP_def testRequest_def Header_Get_def Contains_def Let_def
      SplitHostPort_def LastIndexByte_def)

lemma TrimSpace_unicode:
  "TrimSpace ([CHR 0xC2, CHR 0xA0] @ ''1.2.3.4'' @ [CHR 0xE3, CHR 0x80, CHR 0x80, CHR 0x09])
   = ''1.2.3.4''"
  by code_simp

lemma getClientIP_forwarded:
  "getClientIP ((testRequest ''GET'' [] ''192.168.1.1:12345'')
      \<lparr>Header := Map.empty(''X-Forwarded-For'' \<mapsto> [CHR 0xC2, CHR 0xA0] @ ''1.2.3.4, 10.0.0.1'')\<rparr>)
   = ''1.2.3.4''"
  by code_simp

lemma okHandler_code: "\<not> wroteHeader w \<Longrightarrow> code (okHandler r w) = 200"
  by (simp add: okHandler_def WriteHeader_def Write_def)

section \<open>Rate limiting\<close>

text \<open>
  C1. The middleware is configured with \<open>SLACK_MCP_RATE_LIMIT=60\<close>. A client identity
  (the value of \<open>getClientIP\<close>) that has no bucket yet sends a request that is not a
  preflight: the downstream handler is called and, answering 200, gives the response its
  status. A second request of the same identity that follows at once, which is at any
  instant up to 999999998 nanoseconds after the first, is answered 429 and the downstream
  handler is not called. A request of another identity without a bucket, at any instant,
  is served with status 200. Each identity has a bucket of its own with burst 1: the
  admitted call takes its only token, \<open>Allow\<close> on the empty bucket returns false, and
  the bucket of the first identity is not changed by the request of the other one.
\<close>

theorem burst_of_one_per_identity:
  assumes rpm: "env ''SLACK_MCP_RATE_LIMIT'' = ''60''"
      "parseRateLimit env = Inr (RateLimit (config sm))"
    and first: "rateLimiters sm (getClientIP r1) = None"
    and same: "getClientIP r2 = getClientIP r1"
    and other: "getClientIP r3 \<noteq> getClientIP r1" "rateLimiters sm (getClientIP r3) = None"
    and soon: "t2 + 2 \<le> t1 + Second"
    and fresh: "\<not> wroteHeader w1" "\<not> wroteHeader w2" "\<not> wroteHeader w3"
    and meth: "Method r1 \<noteq> ''OPTIONS''" "Method r3 \<noteq> ''OPTIONS''"
    and ok: "\<forall>r w. \<not> wroteHeader w \<longrightarrow> code (next r w) = 200"
    and run: "out1 = Handler sm next t1 w1 r1"
      "out2 = Handler (middleware out1) next t2 w2 r2"
      "out3 = Handler (middleware out2) next t3 w3 r3"
  shows "served out1 = [r1] \<and> code (writer out1) = 200
       \<and> served out2 = [] \<and> code (writer out2) = 429
       \<and> served out3 = [r3] \<and> code (writer out3) = 200
       \<and> rateLimiters (middleware out1) (getClientIP r1)
           = Some \<lparr>limit = Rate 1, burst = 1, tokens = 0, last_tm = t1\<rparr>
       \<and> snd (Allow \<lparr>limit = Rate 1, burst = 1, tokens = 0, last_tm = t1\<rparr> t2) = False
       \<and> rateLimiters (middleware out3) (getClientIP r1)
           = Some \<lparr>limit = Rate 1, burst = 1, tokens = 0, last_tm = t1\<rparr>
       \<and> rateLimiters (middleware out3) (getClientIP r3)
           = Some \<lparr>limit = Rate 1, burst = 1, tokens = 0, last_tm = t3\<rparr>"
proof -
  have cfg: "RateLimit (config sm) = Second"
    using rpm(2) parseRateLimit_60 [of env] rpm(1) by simp
  have nz: "RateLimit (config sm) \<noteq> 0" by (simp add: cfg Second_def)
  have rate: "perSecond (RateLimit (config sm)) = Rate 1" by (simp add: cfg perSecond_Second)
  have one: "(0::rat) < 1" by simp
  have bucket: "spentBucket Second t = \<lparr>limit = Rate 1, burst = 1, tokens = 0, last_tm = t\<rparr>"
    for t by (simp add: spentBucket_def perSecond_Second)
  define sm1 where
    "sm1 = sm\<lparr>rateLimiters := (rateLimiters sm)(getClientIP r1 \<mapsto> spentBucket Second t1)\<rparr>"
  define sm3 where
    "sm3 = sm1\<lparr>rateLimiters := (rateLimiters sm1)(getClientIP r3 \<mapsto> spentBucket Second t3)\<rparr>"
  have c1: "checkRateLimit t1 sm r1 w1 = (sm1, w1, True)"
    unfolding sm1_def using checkRateLimit_first [OF nz first rate one] by (simp add: cfg)
  have o1: "out1 = \<lparr>middleware = sm1,
            writer = next r1 (if EnableSecurityHeaders (config sm1)
                             then applySecurityHeaders (applyCORS sm1 w1 r1)
                             else applyCORS sm1 w1 r1),
            served = [r1]\<rparr>"
    unfolding run(1) by (rule Handler_admitted [OF c1 meth(1)])
  have cfg1: "RateLimit (config sm1) = Second" using cfg by (simp add: sm1_def)
  have nz1: "RateLimit (config sm1) \<noteq> 0" by (simp add: cfg1 Second_def)
  have rate1: "perSecond (RateLimit (config sm1)) = Rate 1"
    by (simp add: cfg1 perSecond_Second)
  have b1: "rateLimiters sm1 (getClientIP r2) = Some (spentBucket Second t1)"
    by (simp add: sm1_def same)
  have deny: "Allow (spentBucket Second t1) t2 = (spentBucket Second t1, False)"
    using soon by (rule Allow_spent_Second)
  have c2: "checkRateLimit t2 sm1 r2 w2
         = (sm1, writeErrorResponse t2 w2 r2 429 ''RATE_LIMIT_EXCEEDED''
                  ''Too many requests from this client'' (rateLimitDetails Second), False)"
    using checkRateLimit_again [OF nz1 b1 deny] by (simp add: cfg1)
  have o2: "out2 = \<lparr>middleware = sm1,
            writer = writeErrorResponse t2 w2 r2 429 ''RATE_LIMIT_EXCEEDED''
                  ''Too many requests from this client'' (rateLimitDetails Second),
            served = []\<rparr>"
    unfolding run(2) o1 using Handler_throttled [OF c2] by simp
  have b3: "rateLimiters sm1 (getClientIP r3) = None"
    using other by (simp add: sm1_def)
  have c3: "checkRateLimit t3 sm1 r3 w3 = (sm3, w3, True)"
    unfolding sm3_def using checkRateLimit_first [OF nz1 b3 rate1 one] by (simp add: cfg1)
  have o3: "out3 = \<lparr>middleware = sm3,
            writer = next r3 (if EnableSecurityHeaders (config sm3)
                             then applySecurityHeaders (applyCORS sm3 w3 r3)
                             else applyCORS sm3 w3 r3),
            served = [r3]\<rparr>"
    unfolding run(3) o2 using Handler_admitted [OF c3 meth(2)] by simp
  have s1: "served out1 = [r1]" by (simp add: o1)
  have k1: "code (writer out1) = 200"
    using ok fresh(1)
    by (simp add: o1 applyCORS_wroteHeader applySecurityHeaders_wroteHeader)
  have s2: "served out2 = []" by (simp add: o2)
  have k2: "code (writer out2) = 429"
    using fresh(2) by (simp add: o2 writeErrorResponse_code)
  have s3: "served out3 = [r3]" by (simp add: o3)
  have k3: "code (writer out3) = 200"
    using ok fresh(3)
    by (simp add: o3 applyCORS_wroteHeader applySecurityHeaders_wroteHeader)
  have m1: "rateLimiters (middleware out1) (getClientIP r1)
           = Some \<lparr>limit = Rate 1, burst = 1, tokens = 0, last_tm = t1\<rparr>"
    by (simp add: o1 sm1_def bucket)
  have a2: "snd (Allow \<lparr>limit = Rate 1, burst = 1, tokens = 0, last_tm = t1\<rparr> t2) = False"
    using deny by (simp add: bucket)
  have m3: "rateLimiters (middleware out3) (getClientIP r1)
           = Some \<lparr>limit = Rate 1, burst = 1, tokens = 0, last_tm = t1\<rparr>"
    using other(1) by (simp add: o3 sm3_def sm1_def bucket)
  have m4: "rateLimiters (middleware out3) (getClientIP r3)
           = Some \<lparr>limit = Rate 1, burst = 1, tokens = 0, last_tm = t3\<rparr>"
    by (simp add: o3 sm3_def bucket)
  show ?thesis
    using s1 k1 s2 k2 s3 k3 m1 a2 m3 m4 by (intro conjI)
qed

theorem burst_of_one_per_identity_witness:
  "NewSecurityMiddleware (envRateLimit ''60'') = Inr (smInterval Second)
   \<and> code (writer (Handler (smInterval Second) okHandler 7 NewRecorder
        (testRequest ''GET'' [] ''192.168.1.1:12345''))) = 200
   \<and> served (Handler (smInterval Second) okHandler 7 NewRecorder
        (testRequest ''GET'' [] ''192.168.1.1:12345''))
       = [testRequest ''GET'' [] ''192.168.1.1:12345'']
   \<and> code (writer (Handler
        (middleware (Handler (smInterval Second) okHandler 7 NewRecorder
           (testRequest ''GET'' [] ''192.168.1.1:12345'')))
        okHandler 1000000005 NewRecorder (testRequest ''GET'' [] ''192.168.1.1:12346''))) = 429
   \<and> code (writer (Handler
        (middleware (Handler
           (middleware (Handler (smInterval Second) okHandler 7 NewRecorder
              (testRequest ''GET'' [] ''192.168.1.1:12345'')))
           okHandler 1000000005 NewRecorder (testRequest ''GET'' [] ''192.168.1.1:12346'')))
        okHandler 1000000005 NewRecorder (testRequest ''GET'' [] ''192.168.1.2:12345''))) = 200"
proof -
  have e: "envRateLimit ''60'' ''SLACK_MCP_RATE_LIMIT'' = ''60''"
    by (simp add: envRateLimit_def)
  have p: "parseRateLimit (envRateLimit ''60'') = Inr (RateLimit (config (smInterval Second)))"
    using parseRateLimit_60 [of "envRateLimit ''60''"] e by (simp add: smInterval_def)
  have n: "NewSecurityMiddleware (envRateLimit ''60'') = Inr (smInterval Second)"
    using p by (simp add: NewSecurityMiddleware_def smInterval_def parseCORSOrigins_def
        parseSecurityHeaders_def envRateLimit_def)
  have f1: "rateLimiters (smInterval Second)
              (getClientIP (testRequest ''GET'' [] ''192.168.1.1:12345'')) = None"
    by (simp add: smInterval_def)
  have f3: "rateLimiters (smInterval Second)
              (getClientIP (testRequest ''GET'' [] ''192.168.1.2:12345'')) = None"
    by (simp add: smInterval_def)
  have s: "getClientIP (testRequest ''GET'' [] ''192.168.1.1:12346'')
           = getClientIP (testRequest ''GET'' [] ''192.168.1.1:12345'')"
    by (simp add: getClientIP_testRequest_1 getClientIP_testRequest_1b)
  have d: "getClientIP (testRequest ''GET'' [] ''192.168.1.2:12345'')
           \<noteq> getClientIP (testRequest ''GET'' [] ''192.168.1.1:12345'')"
    by (simp add: getClientIP_testRequest_1 getClientIP_testRequest_2)
  have t: "(1000000005::int) + 2 \<le> 7 + Second" by (simp add: Second_def)
  have w: "\<not> wroteHeader NewRecorder" by (simp add: NewRecorder_def)
  have m: "Method (testRequest ''GET'' [] a) \<noteq> ''OPTIONS''" for a
    by (simp add: testRequest_def)
  have k: "\<forall>r w. \<not> wroteHeader w \<longrightarrow> code (okHandler r w) = 200"
    by (simp add: okHandler_code)
  show ?thesis
    using n burst_of_one_per_identity [OF e p f1 s d f3 t w w w m m k refl refl refl]
    by simp
qed

text \<open>
  C2, as the code has it. A zero interval in the configuration switches the limiter off:
  every one of any number of consecutive calls of \<open>checkRateLimit\<close> returns true and
  leaves the middleware, and so its map of buckets, as it was. \<open>parseRateLimit\<close> does
  not produce that interval from zero or a negative number: a value of
  \<open>SLACK_MCP_RATE_LIMIT\<close> that reads as a number not above zero gives the default
  interval of one minute, with limiting in force. \<open>parseRateLimit\<close> never divides by
  zero: it returns a duration for every environment.
\<close>

theorem zero_interval_disables_limiting:
  "(RateLimit (config sm) = 0 \<longrightarrow>
      checkRateLimits sm calls = (sm, replicate (length calls) True))
   \<and> (Atoi (env ''SLACK_MCP_RATE_LIMIT'') = Some n \<and> n \<le> 0 \<longrightarrow>
        parseRateLimit env = Inr Minute)
   \<and> (\<exists>d. parseRateLimit env = Inr d)"
proof -
  have runs: "RateLimit (config sm) = 0 \<Longrightarrow>
      checkRateLimits sm calls = (sm, replicate (length calls) True)"
  proof (induction calls)
    case Nil
    then show ?case by simp
  next
    case (Cons c calls)
    obtain now r w where c: "c = (now, r, w)" by (cases c)
    show ?case using Cons by (simp add: c checkRateLimit_disabled)
  qed
  have dflt: "Atoi (env ''SLACK_MCP_RATE_LIMIT'') = Some n \<and> n \<le> 0 \<Longrightarrow>
        parseRateLimit env = Inr Minute"
    by (simp add: parseRateLimit_def Let_def)
  have total: "\<exists>d. parseRateLimit env = Inr d"
    by (simp add: parseRateLimit_def Let_def int_quo_def split: option.splits)
  show ?thesis using runs dflt total by blast
qed

theorem zero_interval_disables_limiting_witness:
  "RateLimit (config (smInterval 0)) = 0
   \<and> checkRateLimits (smInterval 0)
        [(7, testRequest ''GET'' [] ''192.168.1.1:12345'', NewRecorder),
         (7, testRequest ''GET'' [] ''192.168.1.1:12345'', NewRecorder),
         (7, testRequest ''GET'' [] ''192.168.1.1:12345'', NewRecorder)]
       = (smInterval 0, [True, True, True])
   \<and> rateLimiters (smInterval 0) = Map.empty
   \<and> Atoi (envRateLimit ''-10'' ''SLACK_MCP_RATE_LIMIT'') = Some (- 10)
   \<and> parseRateLimit (envRateLimit ''-10'') = Inr Minute"
proof -
  have z: "RateLimit (config (smInterval 0)) = 0" by (simp add: smInterval_def)
  have a: "Atoi (envRateLimit ''-10'' ''SLACK_MCP_RATE_LIMIT'') = Some (- 10)"
    by (simp add: envRateLimit_def Atoi_def isDigit_def decimal_def digitVal_def Let_def)
  have e: "rateLimiters (smInterval 0) = Map.empty" by (simp add: smInterval_def)
  show ?thesis
    using z a e
      zero_interval_disables_limiting [of "smInterval 0"
        "[(7, testRequest ''GET'' [] ''192.168.1.1:12345'', NewRecorder),
          (7, testRequest ''GET'' [] ''192.168.1.1:12345'', NewRecorder),
          (7, testRequest ''GET'' [] ''192.168.1.1:12345'', NewRecorder)]"
        "envRateLimit ''-10''" "- 10"]
    by (simp add: numeral_3_eq_3)
qed

text \<open>
  The claim C2 as it was stated fails for the environment value \<open>0\<close>: the middleware
  built from it has the interval of one minute, its first check creates a bucket, and the
  second of two consecutive calls of one identity returns false.
\<close>

theorem zero_rate_limit_counterexample:
  "NewSecurityMiddleware (envRateLimit ''0'') = Inr (smInterval Minute)
   \<and> rateLimiters
        (fst (checkRateLimit 7 (smInterval Minute)
                (testRequest ''GET'' [] ''192.168.1.1:12345'') NewRecorder))
        ''192.168.1.1'' = Some (spentBucket Minute 7)
   \<and> snd (snd (checkRateLimit 7
        (fst (checkRateLimit 7 (smInterval Minute)
                (testRequest ''GET'' [] ''192.168.1.1:12345'') NewRecorder))
        (testRequest ''GET'' [] ''192.168.1.1:12345'') NewRecorder)) = False"
proof -
  have p: "parseRateLimit (envRateLimit ''0'') = Inr Minute"
    by (simp add: parseRateLimit_def envRateLimit_def Atoi_def isDigit_def decimal_def
        digitVal_def Let_def)
  have n: "NewSecurityMiddleware (envRateLimit ''0'') = Inr (smInterval Minute)"
    using p by (simp add: NewSecurityMiddleware_def smInterval_def parseCORSOrigins_def
        parseSecurityHeaders_def envRateLimit_def)
  have nz: "RateLimit (config (smInterval Minute)) \<noteq> 0"
    by (simp add: smInterval_def Minute_def Second_def)
  have rate: "perSecond (RateLimit (config (smInterval Minute)))
              = Rate (4803839602528529 / 288230376151711744)"
    by (simp add: smInterval_def perSecond_Minute)
  have q: "(0::rat) < 4803839602528529 / 288230376151711744" by simp
  have none: "rateLimiters (smInterval Minute)
                (getClientIP (testRequest ''GET'' [] ''192.168.1.1:12345'')) = None"
    by (simp add: smInterval_def)
  define sm1 where
    "sm1 = (smInterval Minute)\<lparr>rateLimiters :=
              (rateLimiters (smInterval Minute))(''192.168.1.1'' \<mapsto> spentBucket Minute 7)\<rparr>"
  have c1: "checkRateLimit 7 (smInterval Minute)
              (testRequest ''GET'' [] ''192.168.1.1:12345'') NewRecorder
            = (sm1, NewRecorder, True)"
    using checkRateLimit_first [OF nz none rate q, of 7 NewRecorder]
    by (simp add: sm1_def getClientIP_testRequest_1) (simp add: smInterval_def)
  have nz1: "RateLimit (config sm1) \<noteq> 0"
    by (simp add: sm1_def smInterval_def Minute_def Second_def)
  have some: "rateLimiters sm1 (getClientIP (testRequest ''GET'' [] ''192.168.1.1:12345''))
              = Some (spentBucket Minute 7)"
    by (simp add: getClientIP_testRequest_1) (simp add: sm1_def)
  have deny: "Allow (spentBucket Minute 7) 7 = (spentBucket Minute 7, False)"
    by (rule Allow_spent_Minute) simp
  have c2: "snd (snd (checkRateLimit 7 sm1
              (testRequest ''GET'' [] ''192.168.1.1:12345'') NewRecorder)) = False"
    by (simp add: checkRateLimit_again [OF nz1 some deny])
  show ?thesis
    using n c2 by (simp add: c1) (simp add: sm1_def)
qed

section \<open>Preflight requests\<close>

text \<open>
  C4, as the code has it. The rate-limit check comes first. For a request whose method is
  \<open>OPTIONS\<close> the downstream handler is never called, whatever the allow-list and the
  \<open>Origin\<close> are; the status is 200 when the check admits the request and 429 when it
  throttles it.
\<close>

theorem preflight_never_served:
  assumes "Method r = ''OPTIONS''" and "\<not> wroteHeader w"
  shows "served (Handler sm next now w r) = []
         \<and> code (writer (Handler sm next now w r))
             = (if snd (snd (checkRateLimit now sm r w)) then 200 else 429)"
proof (cases "snd (snd (checkRateLimit now sm r w))")
  case True
  obtain sm1 where c: "checkRateLimit now sm r w = (sm1, w, True)"
    using True checkRateLimit_admitted_writer [OF True]
    by (cases "checkRateLimit now sm r w") auto
  show ?thesis
    using True assms(2)
    by (simp add: Handler_preflight [OF c assms(1)] WriteHeader_def
        applyCORS_wroteHeader applySecurityHeaders_wroteHeader)
next
  case False
  obtain sm1 w1 where c: "checkRateLimit now sm r w = (sm1, w1, False)"
    using False by (cases "checkRateLimit now sm r w") auto
  have "code w1 = 429"
    using checkRateLimit_throttled_code [OF False assms(2)] by (simp add: c)
  then show ?thesis
    using False by (simp add: Handler_throttled [OF c])
qed

theorem preflight_never_served_witness:
  "Method (testRequest ''OPTIONS'' ''https://c.com'' ''192.168.1.1:12345'') = ''OPTIONS''
   \<and> \<not> wroteHeader NewRecorder
   \<and> snd (snd (checkRateLimit 7 (smWith [''https://a.com''] True 0)
        (testRequest ''OPTIONS'' ''https://c.com'' ''192.168.1.1:12345'') NewRecorder))
   \<and> served (Handler (smWith [''https://a.com''] True 0) okHandler 7 NewRecorder
        (testRequest ''OPTIONS'' ''https://c.com'' ''192.168.1.1:12345'')) = []
   \<and> code (writer (Handler (smWith [''https://a.com''] True 0) okHandler 7 NewRecorder
        (testRequest ''OPTIONS'' ''https://c.com'' ''192.168.1.1:12345''))) = 200"
proof -
  have m: "Method (testRequest ''OPTIONS'' ''https://c.com'' ''192.168.1.1:12345'') = ''OPTIONS''"
    by (simp add: testRequest_def)
  have w: "\<not> wroteHeader NewRecorder" by (simp add: NewRecorder_def)
  have c: "snd (snd (checkRateLimit 7 (smWith [''https://a.com''] True 0)
        (testRequest ''OPTIONS'' ''https://c.com'' ''192.168.1.1:12345'') NewRecorder))"
    by (simp add: checkRateLimit_def smWith_def)
  show ?thesis
    using m w c preflight_never_served [OF m w, of "smWith [''https://a.com''] True 0" okHandler 7]
    by simp
qed

text \<open>
  The claim C4 as it was stated fails for the second of two preflight requests of one
  identity at one instant, with one request a second allowed: it is answered 429.
\<close>

theorem throttled_preflight_counterexample:
  "Method (testRequest ''OPTIONS'' [] ''192.168.1.1:12345'') = ''OPTIONS''
   \<and> code (writer (Handler
        (middleware (Handler (smInterval Second) okHandler 7 NewRecorder
           (testRequest ''OPTIONS'' [] ''192.168.1.1:12345'')))
        okHandler 7 NewRecorder (testRequest ''OPTIONS'' [] ''192.168.1.1:12345''))) = 429"
proof -
  have m: "Method (testRequest ''OPTIONS'' [] ''192.168.1.1:12345'') = ''OPTIONS''"
    by (simp add: testRequest_def)
  have w: "\<not> wroteHeader NewRecorder" by (simp add: NewRecorder_def)
  have nz: "RateLimit (config (smInterval Second)) \<noteq> 0"
    by (simp add: smInterval_def Second_def)
  have rate: "perSecond (RateLimit (config (smInterval Second))) = Rate 1"
    by (simp add: smInterval_def perSecond_Second)
  have q: "(0::rat) < 1" by simp
  have none: "rateLimiters (smInterval Second)
                (getClientIP (testRequest ''OPTIONS'' [] ''192.168.1.1:12345'')) = None"
    by (simp add: smInterval_def)
  define sm1 where
    "sm1 = (smInterval Second)\<lparr>rateLimiters :=
              (rateLimiters (smInterval Second))(''192.168.1.1'' \<mapsto> spentBucket Second 7)\<rparr>"
  have c1: "checkRateLimit 7 (smInterval Second)
              (testRequest ''OPTIONS'' [] ''192.168.1.1:12345'') NewRecorder
            = (sm1, NewRecorder, True)"
    using checkRateLimit_first [OF nz none rate q, of 7 NewRecorder]
    by (simp add: sm1_def getClientIP_testRequest_1) (simp add: smInterval_def)
  have h1: "middleware (Handler (smInterval Second) okHandler 7 NewRecorder
              (testRequest ''OPTIONS'' [] ''192.168.1.1:12345'')) = sm1"
    by (simp add: Handler_preflight [OF c1 m])
  have nz1: "RateLimit (config sm1) \<noteq> 0"
    by (simp add: sm1_def smInterval_def Second_def)
  have some: "rateLimiters sm1 (getClientIP (testRequest ''OPTIONS'' [] ''192.168.1.1:12345''))
              = Some (spentBucket Second 7)"
    by (simp add: getClientIP_testRequest_1) (simp add: sm1_def)
  have deny: "Allow (spentBucket Second 7) 7 = (spentBucket Second 7, False)"
    by (rule Allow_spent_Second) (simp add: Second_def)
  have c2: "checkRateLimit 7 sm1 (testRequest ''OPTIONS'' [] ''192.168.1.1:12345'') NewRecorder
            = (sm1, writeErrorResponse 7 NewRecorder
                  (testRequest ''OPTIONS'' [] ''192.168.1.1:12345'') 429 ''RATE_LIMIT_EXCEEDED''
                  ''Too many requests from this client''
                  (rateLimitDetails (RateLimit (config sm1))), False)"
    by (rule checkRateLimit_again [OF nz1 some deny])
  show ?thesis
    using m w by (simp add: h1 Handler_throttled [OF c2] writeErrorResponse_code)
qed

section \<open>Cross-origin headers\<close>

lemma corsLoop_match:
  assumes "\<exists>a \<in> set xs. a = ''*'' \<or> a = origin"
  shows "corsLoop xs origin w = (Header_Set w ''Access-Control-Allow-Origin'' origin, True)"
  using assms by (induction xs) auto

lemma corsLoop_no_match:
  assumes "\<not> (\<exists>a \<in> set xs. a = ''*'' \<or> a = origin)"
  shows "corsLoop xs origin w = (w, False)"
  using assms by (induction xs) auto

lemma corsLoop_other_header:
  assumes "k \<noteq> ''Access-Control-Allow-Origin''"
  shows "header (fst (corsLoop xs origin w)) k = header w k"
  using assms by (induction xs) (simp_all add: Header_Set_def)

lemma applyCORS_allow_origin:
  "header (applyCORS sm w r) ''Access-Control-Allow-Origin''
   = (if CORSOrigins (config sm) = [] then Some ''*''
      else header (fst (corsLoop (CORSOrigins (config sm))
                          (Header_Get (Header r) ''Origin'') w))
             ''Access-Control-Allow-Origin'')"
  by (simp add: applyCORS_def Let_def Header_Set_def)

lemma applyCORS_other_header:
  assumes "k \<noteq> ''Access-Control-Allow-Origin''" "k \<noteq> ''Access-Control-Allow-Methods''"
    "k \<noteq> ''Access-Control-Allow-Headers''" "k \<noteq> ''Access-Control-Allow-Credentials''"
    "k \<noteq> ''Access-Control-Max-Age''"
  shows "header (applyCORS sm w r) k = header w k"
  using assms corsLoop_other_header [OF assms(1)]
  by (simp add: applyCORS_def Let_def Header_Set_def)

lemma applyCORS_security_header:
  "header (applyCORS sm w r) ''X-Content-Type-Options'' = header w ''X-Content-Type-Options''"
  "header (applyCORS sm w r) ''X-Frame-Options'' = header w ''X-Frame-Options''"
  "header (applyCORS sm w r) ''X-XSS-Protection'' = header w ''X-XSS-Protection''"
  "header (applyCORS sm w r) ''Referrer-Policy'' = header w ''Referrer-Policy''"
  "header (applyCORS sm w r) ''Content-Security-Policy'' = header w ''Content-Security-Policy''"
  by (simp_all add: applyCORS_other_header)

text \<open>
  C3. \<open>applyCORS\<close> has three cases. With an empty allow-list the header
  \<open>Access-Control-Allow-Origin\<close> is \<open>*\<close>, whatever the \<open>Origin\<close> of the request is,
  absent included. With an allow-list that has an entry equal to \<open>*\<close> or to the
  \<open>Origin\<close> of the request, the header is the \<open>Origin\<close> of the request, and so not
  \<open>*\<close> unless the request itself sent \<open>*\<close> as its \<open>Origin\<close>. Otherwise
  \<open>applyCORS\<close> leaves the header as it found it; the request is not rejected: once the
  rate-limit check has admitted it and it is not a preflight, the downstream handler is
  called.
\<close>

theorem applyCORS_three_cases:
  "(CORSOrigins (config sm) = [] \<longrightarrow>
      header (applyCORS sm w r) ''Access-Control-Allow-Origin'' = Some ''*'')
   \<and> (CORSOrigins (config sm) \<noteq> [] \<and>
      (\<exists>a \<in> set (CORSOrigins (config sm)). a = ''*'' \<or> a = Header_Get (Header r) ''Origin'') \<longrightarrow>
        header (applyCORS sm w r) ''Access-Control-Allow-Origin''
          = Some (Header_Get (Header r) ''Origin'')
        \<and> (Header_Get (Header r) ''Origin'' \<noteq> ''*'' \<longrightarrow>
             header (applyCORS sm w r) ''Access-Control-Allow-Origin'' \<noteq> Some ''*''))
   \<and> (CORSOrigins (config sm) \<noteq> [] \<and>
      \<not> (\<exists>a \<in> set (CORSOrigins (config sm)). a = ''*'' \<or> a = Header_Get (Header r) ''Origin'') \<longrightarrow>
        header (applyCORS sm w r) ''Access-Control-Allow-Origin''
          = header w ''Access-Control-Allow-Origin''
        \<and> (snd (snd (checkRateLimit now sm r w)) \<and> Method r \<noteq> ''OPTIONS'' \<longrightarrow>
             served (Handler sm next now w r) = [r]))"
proof -
  have empty: "CORSOrigins (config sm) = [] \<Longrightarrow>
      header (applyCORS sm w r) ''Access-Control-Allow-Origin'' = Some ''*''"
    by (simp add: applyCORS_allow_origin)
  have match: "header (applyCORS sm w r) ''Access-Control-Allow-Origin''
          = Some (Header_Get (Header r) ''Origin'')"
    if "CORSOrigins (config sm) \<noteq> []"
      and "\<exists>a \<in> set (CORSOrigins (config sm)). a = ''*'' \<or> a = Header_Get (Header r) ''Origin''"
    using that by (simp add: applyCORS_allow_origin corsLoop_match Header_Set_def)
  have none: "header (applyCORS sm w r) ''Access-Control-Allow-Origin''
          = header w ''Access-Control-Allow-Origin''"
    if "CORSOrigins (config sm) \<noteq> []"
      and "\<not> (\<exists>a \<in> set (CORSOrigins (config sm)). a = ''*'' \<or> a = Header_Get (Header r) ''Origin'')"
    using that by (simp add: applyCORS_allow_origin corsLoop_no_match)
  have proceeds: "served (Handler sm next now w r) = [r]"
    if a: "snd (snd (checkRateLimit now sm r w))" and m: "Method r \<noteq> ''OPTIONS''"
  proof -
    obtain sm1 where c: "checkRateLimit now sm r w = (sm1, w, True)"
      using a checkRateLimit_admitted_writer [OF a]
      by (cases "checkRateLimit now sm r w") auto
    show ?thesis by (simp add: Handler_admitted [OF c m])
  qed
  have notstar: "header (applyCORS sm w r) ''Access-Control-Allow-Origin'' \<noteq> Some ''*''"
    if "CORSOrigins (config sm) \<noteq> []"
      and "\<exists>a \<in> set (CORSOrigins (config sm)). a = ''*'' \<or> a = Header_Get (Header r) ''Origin''"
      and "Header_Get (Header r) ''Origin'' \<noteq> ''*''"
    using match [OF that(1,2)] that(3) by simp
  show ?thesis
    using empty match none proceeds notstar by blast
qed

theorem applyCORS_three_cases_witness:
  "header (applyCORS (smWith [] True 0) NewRecorder (testRequest ''GET'' [] ''192.168.1.1:12345''))
     ''Access-Control-Allow-Origin'' = Some ''*''
   \<and> header (applyCORS (smWith [''https://a.com'', ''https://b.com''] True 0) NewRecorder
        (testRequest ''GET'' ''https://b.com'' ''192.168.1.1:12345''))
     ''Access-Control-Allow-Origin'' = Some ''https://b.com''
   \<and> header (applyCORS (smWith [''*''] True 0) NewRecorder
        (testRequest ''GET'' ''https://any-origin.com'' ''192.168.1.1:12345''))
     ''Access-Control-Allow-Origin'' = Some ''https://any-origin.com''
   \<and> header (applyCORS (smWith [''https://a.com'', ''https://b.com''] True 0) NewRecorder
        (testRequest ''GET'' ''https://c.com'' ''192.168.1.1:12345''))
     ''Access-Control-Allow-Origin'' = None
   \<and> served (Handler (smWith [''https://a.com'', ''https://b.com''] True 0) okHandler 7
        NewRecorder (testRequest ''GET'' ''https://c.com'' ''192.168.1.1:12345''))
     = [testRequest ''GET'' ''https://c.com'' ''192.168.1.1:12345'']"
proof -
  have o: "Header_Get (Header (testRequest m origin a)) ''Origin'' = origin" for m origin a
    by (simp add: testRequest_def Header_Get_def)
  have g: "Method (testRequest ''GET'' origin a) \<noteq> ''OPTIONS''" for origin a
    by (simp add: testRequest_def)
  have c: "snd (snd (checkRateLimit 7 (smWith xs True 0) r NewRecorder))" for xs r
    by (simp add: checkRateLimit_def smWith_def)
  have l: "CORSOrigins (config (smWith xs e d)) = xs" for xs e d
    by (simp add: smWith_def)
  have h: "header NewRecorder ''Access-Control-Allow-Origin'' = None"
    by (simp add: NewRecorder_def)
  show ?thesis
    using applyCORS_three_cases [of "smWith [] True 0" NewRecorder
        "testRequest ''GET'' [] ''192.168.1.1:12345''" 7 okHandler]
      applyCORS_three_cases [of "smWith [''https://a.com'', ''https://b.com''] True 0"
        NewRecorder "testRequest ''GET'' ''https://b.com'' ''192.168.1.1:12345''" 7 okHandler]
      applyCORS_three_cases [of "smWith [''*''] True 0"
        NewRecorder "testRequest ''GET'' ''https://any-origin.com'' ''192.168.1.1:12345''" 7 okHandler]
      applyCORS_three_cases [of "smWith [''https://a.com'', ''https://b.com''] True 0"
        NewRecorder "testRequest ''GET'' ''https://c.com'' ''192.168.1.1:12345''" 7 okHandler]
    by (simp add: o g c l h)
qed

section \<open>Security headers\<close>

lemma applySecurityHeaders_header:
  "header (applySecurityHeaders w) ''X-Content-Type-Options'' = Some ''nosniff''"
  "header (applySecurityHeaders w) ''X-Frame-Options'' = Some ''DENY''"
  "header (applySecurityHeaders w) ''X-XSS-Protection'' = Some ''1; mode=block''"
  "header (applySecurityHeaders w) ''Referrer-Policy'' = Some ''strict-origin-when-cross-origin''"
  "header (applySecurityHeaders w) ''Content-Security-Policy''
     = Some (''default-src 'self'; script-src 'self'; style-src 'self' 'unsafe-inline''
               @ [CHR 0x27])"
  by (simp_all add: applySecurityHeaders_def Let_def Header_Set_def)

text \<open>
  C8. The request is admitted by the rate-limit check, the writer has sent nothing yet,
  and the downstream handler leaves the five headers alone. With the flag off, a writer
  that did not carry any of the five headers gives a response that carries none of them.
  With the flag on, the response carries all five, with the fixed values. This holds for
  a preflight request, which the middleware answers itself, and for a request handed to the
  downstream handler.
\<close>

theorem security_headers_all_or_nothing:
  assumes fresh: "\<not> wroteHeader w"
    and admitted: "snd (snd (checkRateLimit now sm r w))"
    and untouched: "\<forall>w' k. k \<in> {''X-Content-Type-Options'', ''X-Frame-Options'',
        ''X-XSS-Protection'', ''Referrer-Policy'', ''Content-Security-Policy''} \<longrightarrow>
      \<not> wroteHeader w' \<longrightarrow> responseHeader (next r w') k = header w' k"
  shows "(\<not> EnableSecurityHeaders (config sm) \<and>
          (\<forall>k \<in> {''X-Content-Type-Options'', ''X-Frame-Options'', ''X-XSS-Protection'',
                  ''Referrer-Policy'', ''Content-Security-Policy''}. header w k = None) \<longrightarrow>
          (\<forall>k \<in> {''X-Content-Type-Options'', ''X-Frame-Options'', ''X-XSS-Protection'',
                  ''Referrer-Policy'', ''Content-Security-Policy''}.
             responseHeader (writer (Handler sm next now w r)) k = None))
       \<and> (EnableSecurityHeaders (config sm) \<longrightarrow>
            responseHeader (writer (Handler sm next now w r)) ''X-Content-Type-Options''
              = Some ''nosniff''
          \<and> responseHeader (writer (Handler sm next now w r)) ''X-Frame-Options''
              = Some ''DENY''
          \<and> responseHeader (writer (Handler sm next now w r)) ''X-XSS-Protection''
              = Some ''1; mode=block''
          \<and> responseHeader (writer (Handler sm next now w r)) ''Referrer-Policy''
              = Some ''strict-origin-when-cross-origin''
          \<and> responseHeader (writer (Handler sm next now w r)) ''Content-Security-Policy''
              = Some (''default-src 'self'; script-src 'self'; style-src 'self' 'unsafe-inline''
                        @ [CHR 0x27]))"
proof -
  let ?five = "{''X-Content-Type-Options'', ''X-Frame-Options'', ''X-XSS-Protection'',
                ''Referrer-Policy'', ''Content-Security-Policy''}"
  obtain sm1 where c: "checkRateLimit now sm r w = (sm1, w, True)"
    using admitted checkRateLimit_admitted_writer [OF admitted]
    by (cases "checkRateLimit now sm r w") auto
  have cfg: "config sm1 = config sm"
    using checkRateLimit_config [of now sm r w] by (simp add: c)
  define w3 where "w3 = (if EnableSecurityHeaders (config sm)
                         then applySecurityHeaders (applyCORS sm1 w r)
                         else applyCORS sm1 w r)"
  have w3: "\<not> wroteHeader w3"
    using fresh by (simp add: w3_def applyCORS_wroteHeader applySecurityHeaders_wroteHeader)
  have resp: "responseHeader (writer (Handler sm next now w r)) k = header w3 k"
    if "k \<in> ?five" for k
  proof (cases "Method r = ''OPTIONS''")
    case True
    show ?thesis
      using w3 by (simp add: Handler_preflight [OF c True] cfg w3_def [symmetric]
          WriteHeader_def responseHeader_def)
  next
    case False
    show ?thesis
      using untouched [rule_format, OF that w3]
      by (simp add: Handler_admitted [OF c False] cfg w3_def [symmetric])
  qed
  have off: "header w3 k = header w k"
    if "\<not> EnableSecurityHeaders (config sm)" and "k \<in> ?five" for k
    using that by (auto simp: w3_def applyCORS_security_header)
  have on: "header w3 = header (applySecurityHeaders (applyCORS sm1 w r))"
    if "EnableSecurityHeaders (config sm)"
    using that by (simp add: w3_def)
  have A: "\<forall>k \<in> ?five. responseHeader (writer (Handler sm next now w r)) k = None"
    if "\<not> EnableSecurityHeaders (config sm)" and "\<forall>k \<in> ?five. header w k = None"
    using that by (simp add: resp off)
  have B: "responseHeader (writer (Handler sm next now w r)) ''X-Content-Type-Options''
              = Some ''nosniff''
          \<and> responseHeader (writer (Handler sm next now w r)) ''X-Frame-Options''
              = Some ''DENY''
          \<and> responseHeader (writer (Handler sm next now w r)) ''X-XSS-Protection''
              = Some ''1; mode=block''
          \<and> responseHeader (writer (Handler sm next now w r)) ''Referrer-Policy''
              = Some ''strict-origin-when-cross-origin''
          \<and> responseHeader (writer (Handler sm next now w r)) ''Content-Security-Policy''
              = Some (''default-src 'self'; script-src 'self'; style-src 'self' 'unsafe-inline''
                        @ [CHR 0x27])"
    if e: "EnableSecurityHeaders (config sm)"
    by (simp add: resp on [OF e] applySecurityHeaders_header)
  show ?thesis
  proof (rule conjI)
    show "\<not> EnableSecurityHeaders (config sm) \<and> (\<forall>k \<in> ?five. header w k = None) \<longrightarrow>
          (\<forall>k \<in> ?five. responseHeader (writer (Handler sm next now w r)) k = None)"
    proof (rule impI)
      assume "\<not> EnableSecurityHeaders (config sm) \<and> (\<forall>k \<in> ?five. header w k = None)"
      then show "\<forall>k \<in> ?five. responseHeader (writer (Handler sm next now w r)) k = None"
        using A by (elim conjE)
    qed
  next
    show "EnableSecurityHeaders (config sm) \<longrightarrow>
            responseHeader (writer (Handler sm next now w r)) ''X-Content-Type-Options''
              = Some ''nosniff''
          \<and> responseHeader (writer (Handler sm next now w r)) ''X-Frame-Options''
              = Some ''DENY''
          \<and> responseHeader (writer (Handler sm next now w r)) ''X-XSS-Protection''
              = Some ''1; mode=block''
          \<and> responseHeader (writer (Handler sm next now w r)) ''Referrer-Policy''
              = Some ''strict-origin-when-cross-origin''
          \<and> responseHeader (writer (Handler sm next now w r)) ''Content-Security-Policy''
              = Some (''default-src 'self'; script-src 'self'; style-src 'self' 'unsafe-inline''
                        @ [CHR 0x27])"
      using B by (rule impI)
  qed
qed

lemma okHandler_responseHeader:
  "\<not> wroteHeader w \<Longrightarrow> responseHeader (okHandler r w) = header w"
  by (simp add: okHandler_def WriteHeader_def Write_def responseHeader_def)

theorem security_headers_all_or_nothing_witness:
  "\<not> EnableSecurityHeaders (config (smWith [] False 0))
   \<and> map (responseHeader (writer (Handler (smWith [] False 0) okHandler 7 NewRecorder
             (testRequest ''GET'' [] ''192.168.1.1:12345''))))
        [''X-Content-Type-Options'', ''X-Frame-Options'', ''X-XSS-Protection'',
         ''Referrer-Policy'', ''Content-Security-Policy'']
       = [None, None, None, None, None]
   \<and> EnableSecurityHeaders (config (smWith [] True 0))
   \<and> map (responseHeader (writer (Handler (smWith [] True 0) okHandler 7 NewRecorder
             (testRequest ''GET'' [] ''192.168.1.1:12345''))))
        [''X-Content-Type-Options'', ''X-Frame-Options'', ''X-XSS-Protection'',
         ''Referrer-Policy'', ''Content-Security-Policy'']
       = [Some ''nosniff'', Some ''DENY'', Some ''1; mode=block'',
          Some ''strict-origin-when-cross-origin'',
          Some (''default-src 'self'; script-src 'self'; style-src 'self' 'unsafe-inline''
                  @ [CHR 0x27])]"
proof -
  have w: "\<not> wroteHeader NewRecorder" by (simp add: NewRecorder_def)
  have c: "snd (snd (checkRateLimit 7 (smWith [] e 0)
             (testRequest ''GET'' [] ''192.168.1.1:12345'') NewRecorder))" for e
    by (simp add: checkRateLimit_def smWith_def)
  have u: "\<forall>w' k. k \<in> {''X-Content-Type-Options'', ''X-Frame-Options'',
        ''X-XSS-Protection'', ''Referrer-Policy'', ''Content-Security-Policy''} \<longrightarrow>
      \<not> wroteHeader w' \<longrightarrow>
      responseHeader (okHandler (testRequest ''GET'' [] ''192.168.1.1:12345'') w') k = header w' k"
    by (simp add: okHandler_responseHeader)
  have off: "\<not> EnableSecurityHeaders (config (smWith [] False 0))"
    by (simp add: smWith_def)
  have on: "EnableSecurityHeaders (config (smWith [] True 0))"
    by (simp add: smWith_def)
  have h: "header NewRecorder k = None" for k by (simp add: NewRecorder_def)
  show ?thesis
    using off on
      security_headers_all_or_nothing [of NewRecorder 7 "smWith [] False 0"
        "testRequest ''GET'' [] ''192.168.1.1:12345''" okHandler, OF w c u]
      security_headers_all_or_nothing [of NewRecorder 7 "smWith [] True 0"
        "testRequest ''GET'' [] ''192.168.1.1:12345''" okHandler, OF w c u]
    by (simp add: h)
qed

section \<open>Health documents\<close>

lemma checkCacheSystem_nil:
  "provider h = None \<Longrightarrow> checkCacheSystem h io = Inr (CheckStatusError, io)"
  by (simp add: checkCacheSystem_def)

lemma checkCacheSystem_provider:
  "provider h = Some a \<Longrightarrow>
   checkCacheSystem h io
   = Inr (if snd (IsReady a) \<noteq> None \<or> \<not> fst (IsReady a)
          then CheckStatusError else CheckStatusOK,
          io @ [CallIsReady])"
  by (simp add: checkCacheSystem_def provider_IsReady_def split: prod.splits)

lemma checkCacheSystem_total:
  "\<exists>s io'. checkCacheSystem h io = Inr (s, io') \<and> (s = CheckStatusOK \<or> s = CheckStatusError)"
proof (cases "provider h")
  case None
  then show ?thesis by (simp add: checkCacheSystem_nil)
next
  case (Some a)
  then show ?thesis by (simp add: checkCacheSystem_provider)
qed

lemma checkSlackAPI_nil:
  "provider h = None \<Longrightarrow> checkSlackAPI world h ctx io = Inr (CheckStatusError, io)"
  by (simp add: checkSlackAPI_def)

lemma checkSlackAPI_no_client:
  "provider h = Some a \<Longrightarrow> Slack a = None \<Longrightarrow>
   checkSlackAPI world h ctx io = Inr (CheckStatusError, io @ [CallSlack])"
  by (simp add: checkSlackAPI_def provider_Slack_def)

lemma checkSlackAPI_total:
  "\<exists>s io'. checkSlackAPI world h ctx io = Inr (s, io')
     \<and> (s = CheckStatusOK \<or> s = CheckStatusError)"
proof (cases "provider h")
  case None
  then show ?thesis by (simp add: checkSlackAPI_nil)
next
  case (Some a)
  show ?thesis
  proof (cases "Slack a")
    case None
    then show ?thesis using Some by (simp add: checkSlackAPI_no_client)
  next
    case (Some c)
    then show ?thesis
      using \<open>provider h = Some a\<close>
      by (simp add: checkSlackAPI_def provider_Slack_def client_AuthTestContext_def)
  qed
qed

lemma performHealthChecks_basic:
  assumes "checkCacheSystem h io = Inr (s, io1)"
  shows "performHealthChecks world h ctx False io
         = Inr (\<lparr>Status = (if s = CheckStatusError
                            then HealthStatusUnhealthy else HealthStatusHealthy),
                  Timestamp = Now world,
                  Version = version_Version world,
                  Checks = Map.empty(''cache'' \<mapsto> s),
                  Uptime = Some (time_Since (Now world) (startTime h)),
                  Details = (if s = CheckStatusError
                             then Map.empty(''cache'' \<mapsto> ''Cache system not ready'')
                             else Map.empty)\<rparr>,
                io1)"
  using assms by (simp add: performHealthChecks_def Let_def)

lemma performHealthChecks_readiness:
  assumes "checkCacheSystem h io = Inr (s, io1)"
    and "checkSlackAPI world h ctx io1 = Inr (s2, io2)"
  shows "performHealthChecks world h ctx True io
         = Inr (\<lparr>Status = (if s2 = CheckStatusError then HealthStatusUnhealthy
                            else if s = CheckStatusError
                            then HealthStatusUnhealthy else HealthStatusHealthy),
                  Timestamp = Now world,
                  Version = version_Version world,
                  Checks = Map.empty(''cache'' \<mapsto> s, ''slack_api'' \<mapsto> s2),
                  Uptime = Some (time_Since (Now world) (startTime h)),
                  Details = (if s2 = CheckStatusError
                             then (if s = CheckStatusError
                                   then Map.empty(''cache'' \<mapsto> ''Cache system not ready'')
                                   else Map.empty)
                                  (''slack_api'' \<mapsto> ''Slack API connectivity failed'')
                             else if s = CheckStatusError
                             then Map.empty(''cache'' \<mapsto> ''Cache system not ready'')
                             else Map.empty)\<rparr>,
                io2)"
  using assms by (simp add: performHealthChecks_def Let_def)

lemma status_constants:
  "CheckStatusOK \<noteq> CheckStatusError" "HealthStatusHealthy \<noteq> HealthStatusUnhealthy"
  "CheckStatusError \<noteq> CheckStatusOK" "HealthStatusUnhealthy \<noteq> HealthStatusHealthy"
  by (simp_all add: CheckStatusOK_def CheckStatusError_def
      HealthStatusHealthy_def HealthStatusUnhealthy_def)

lemma every_entry_one:
  "(\<forall>k v. (Map.empty(a \<mapsto> s)) k = Some v \<longrightarrow> v = c) = (s = c)"
  by auto

lemma every_entry_two:
  "a \<noteq> b \<Longrightarrow>
   (\<forall>k v. (Map.empty(a \<mapsto> s, b \<mapsto> s2)) k = Some v \<longrightarrow> v = c) = (s = c \<and> s2 = c)"
  by auto

lemma performHealthChecks_total:
  "\<exists>d io'. performHealthChecks world h ctx includeReadiness io = Inr (d, io')
     \<and> Uptime d = Some (time_Since (Now world) (startTime h))
     \<and> ((Status d = HealthStatusHealthy)
          = (\<forall>k v. Checks d k = Some v \<longrightarrow> v = CheckStatusOK))"
proof -
  obtain s io1 where c: "checkCacheSystem h io = Inr (s, io1)"
    and s: "s = CheckStatusOK \<or> s = CheckStatusError"
    using checkCacheSystem_total by blast
  have keys: "''cache'' \<noteq> ''slack_api''" by simp
  show ?thesis
  proof (cases includeReadiness)
    case False
    obtain d where p: "performHealthChecks world h ctx False io = Inr (d, io1)"
      and st: "Status d = (if s = CheckStatusError
                           then HealthStatusUnhealthy else HealthStatusHealthy)"
      and ch: "Checks d = Map.empty(''cache'' \<mapsto> s)"
      and up: "Uptime d = Some (time_Since (Now world) (startTime h))"
      by (simp add: performHealthChecks_basic [OF c])
    have "(Status d = HealthStatusHealthy)
          = (\<forall>k v. Checks d k = Some v \<longrightarrow> v = CheckStatusOK)"
      unfolding ch st every_entry_one
      using s by (elim disjE) (simp_all add: status_constants)
    then show ?thesis using p up by (simp add: False)
  next
    case True
    obtain s2 io2 where c2: "checkSlackAPI world h ctx io1 = Inr (s2, io2)"
      and s2: "s2 = CheckStatusOK \<or> s2 = CheckStatusError"
      using checkSlackAPI_total by blast
    obtain d where p: "performHealthChecks world h ctx True io = Inr (d, io2)"
      and st: "Status d = (if s2 = CheckStatusError then HealthStatusUnhealthy
                           else if s = CheckStatusError
                           then HealthStatusUnhealthy else HealthStatusHealthy)"
      and ch: "Checks d = Map.empty(''cache'' \<mapsto> s, ''slack_api'' \<mapsto> s2)"
      and up: "Uptime d = Some (time_Since (Now world) (startTime h))"
      by (simp add: performHealthChecks_readiness [OF c c2])
    have "(Status d = HealthStatusHealthy)
          = (\<forall>k v. Checks d k = Some v \<longrightarrow> v = CheckStatusOK)"
      unfolding ch st every_entry_two [OF keys]
      using s s2 by (elim disjE) (simp_all add: status_constants)
    then show ?thesis using p up by (simp add: True)
  qed
qed

lemma writeHealthResponse_body:
  "Marshals world d \<Longrightarrow> body (writeHealthResponse world h w d) = body w @ [JSONDocument d]"
  by (simp add: writeHealthResponse_def Let_def Write_def WriteHeader_def Header_Set_def)

lemma writeHealthResponse_code:
  "\<not> wroteHeader w \<Longrightarrow>
   code (writeHealthResponse world h w d)
   = (if Status d = HealthStatusUnhealthy then 503 else 200)"
  by (simp add: writeHealthResponse_def Let_def Write_def WriteHeader_def Header_Set_def
      http_Error_def Header_Del_def)

lemma time_Since_positive: "t < now \<Longrightarrow> 0 < time_Since now t"
  by (simp add: time_Since_def time_Sub_def Let_def maxDuration_def minDuration_def)

lemma LivenessHandler_document:
  "LivenessHandler world h w r io
   = Inr (writeHealthResponse world h w
            \<lparr>Status = HealthStatusHealthy,
              Timestamp = Now world,
              Version = version_Version world,
              Checks = Map.empty(''application'' \<mapsto> CheckStatusOK),
              Uptime = Some (time_Since (Now world) (startTime h)),
              Details = Map.empty\<rparr>,
          io)"
  by (simp add: LivenessHandler_def Let_def)

text \<open>
  C5. \<open>performHealthChecks\<close> returns a document, and the status of that document is
  \<open>healthy\<close> exactly when every entry of its map of checks is \<open>ok\<close>. The document
  the liveness handler writes is built without running a check: its map of checks has the
  single key \<open>application\<close>, with the value \<open>ok\<close>, and its status is \<open>healthy\<close>.
\<close>

theorem healthy_iff_every_check_ok:
  "(\<exists>d io'. performHealthChecks world h ctx includeReadiness io = Inr (d, io')
      \<and> ((Status d = HealthStatusHealthy)
           = (\<forall>k v. Checks d k = Some v \<longrightarrow> v = CheckStatusOK)))
   \<and> (\<exists>d. LivenessHandler world h w r io = Inr (writeHealthResponse world h w d, io)
         \<and> Checks d = Map.empty(''application'' \<mapsto> CheckStatusOK)
         \<and> dom (Checks d) = {''application''}
         \<and> Status d = HealthStatusHealthy
         \<and> (Marshals world d \<longrightarrow>
              body (writeHealthResponse world h w d) = body w @ [JSONDocument d]))"
proof -
  have A: "\<exists>d io'. performHealthChecks world h ctx includeReadiness io = Inr (d, io')
      \<and> ((Status d = HealthStatusHealthy)
           = (\<forall>k v. Checks d k = Some v \<longrightarrow> v = CheckStatusOK))"
    using performHealthChecks_total [of world h ctx includeReadiness io] by blast
  have B: "\<exists>d. LivenessHandler world h w r io = Inr (writeHealthResponse world h w d, io)
         \<and> Checks d = Map.empty(''application'' \<mapsto> CheckStatusOK)
         \<and> dom (Checks d) = {''application''}
         \<and> Status d = HealthStatusHealthy
         \<and> (Marshals world d \<longrightarrow>
              body (writeHealthResponse world h w d) = body w @ [JSONDocument d])"
    unfolding LivenessHandler_document
    by (rule exI [of _ "\<lparr>Status = HealthStatusHealthy,
              Timestamp = Now world,
              Version = version_Version world,
              Checks = Map.empty(''application'' \<mapsto> CheckStatusOK),
              Uptime = Some (time_Since (Now world) (startTime h)),
              Details = Map.empty\<rparr>"]) (simp add: writeHealthResponse_body)
  show ?thesis using A B by (rule conjI)
qed

theorem healthy_iff_every_check_ok_witness:
  "(\<exists>d io'. performHealthChecks (worldAt 9 True) readyChecker \<lparr>deadline = None\<rparr> True []
               = Inr (d, io')
      \<and> Status d = HealthStatusHealthy
      \<and> Checks d ''cache'' = Some CheckStatusOK
      \<and> Checks d ''slack_api'' = Some CheckStatusOK)
   \<and> (\<exists>d io'. performHealthChecks (worldAt 9 True) nilChecker \<lparr>deadline = None\<rparr> True []
               = Inr (d, io')
      \<and> Status d \<noteq> HealthStatusHealthy
      \<and> Checks d ''cache'' = Some CheckStatusError)"
proof -
  have r1: "checkCacheSystem readyChecker [] = Inr (CheckStatusOK, [CallIsReady])"
    by (simp add: checkCacheSystem_provider [of _ "\<lparr>IsReady = (True, None),
          Slack = Some \<lparr>AuthTestContext = (\<lambda>ctx. None)\<rparr>\<rparr>"] readyChecker_def)
  have r2: "checkSlackAPI (worldAt 9 True) readyChecker \<lparr>deadline = None\<rparr> [CallIsReady]
            = Inr (CheckStatusOK, [CallIsReady, CallSlack, CallSlack,
                                   CallAuthTestContext \<lparr>deadline = None\<rparr>])"
    by (simp add: checkSlackAPI_def readyChecker_def provider_Slack_def worldAt_def
        client_AuthTestContext_def)
  have n1: "checkCacheSystem nilChecker [] = Inr (CheckStatusError, [])"
    by (simp add: checkCacheSystem_nil nilChecker_def)
  have n2: "checkSlackAPI (worldAt 9 True) nilChecker \<lparr>deadline = None\<rparr> []
            = Inr (CheckStatusError, [])"
    by (simp add: checkSlackAPI_nil nilChecker_def)
  show ?thesis
    using healthy_iff_every_check_ok [of "worldAt 9 True" readyChecker
        "\<lparr>deadline = None\<rparr>" True "[]" NewRecorder "testRequest ''GET'' [] ''10.0.0.1:1''"]
      healthy_iff_every_check_ok [of "worldAt 9 True" nilChecker
        "\<lparr>deadline = None\<rparr>" True "[]" NewRecorder "testRequest ''GET'' [] ''10.0.0.1:1''"]
      status_constants
    by (simp add: performHealthChecks_readiness [OF r1 r2]
        performHealthChecks_readiness [OF n1 n2])
qed

section \<open>Rendering a health document\<close>

text \<open>
  C6, evaluated where the code departs from it. \<open>writeHealthResponse\<close> writes the status
  line, 200 or 503, before it encodes the document. When encoding fails, \<open>http.Error\<close>
  asks for status 500 on a writer whose status line is already out, and the request is
  ignored: for a healthy document that cannot be encoded the response keeps status 200 and
  the content type \<open>application/json\<close>, and its body is the plain text of
  \<open>http.Error\<close>.
\<close>

theorem encoding_failure_keeps_status:
  "Status healthyDocument = HealthStatusHealthy
   \<and> \<not> Marshals (worldAt 5 False) healthyDocument
   \<and> code (writeHealthResponse (worldAt 5 False) nilChecker NewRecorder healthyDocument) = 200
   \<and> responseHeader (writeHealthResponse (worldAt 5 False) nilChecker NewRecorder healthyDocument)
        ''Content-Type'' = Some ''application/json''
   \<and> body (writeHealthResponse (worldAt 5 False) nilChecker NewRecorder healthyDocument)
       = [Text (''Internal server error'' @ [CHR 0x0A])]"
  by (simp add: writeHealthResponse_def healthyDocument_def worldAt_def NewRecorder_def
      status_constants Let_def http_Error_def Header_Set_def Header_Del_def WriteHeader_def
      Write_def responseHeader_def)

section \<open>The liveness probe\<close>

text \<open>
  C7. The liveness handler is called on a writer that has sent nothing yet, when the
  clock reads later than it did when the checker was built. For every checker, whatever its
  provider is, the handler returns without a panic, the response has status 200, and
  the document it writes has status \<open>healthy\<close>, the single check \<open>application\<close> with the
  value \<open>ok\<close>, and an uptime above zero. The handler makes no call on the provider or on
  its client: the log of calls is returned as it was, and the result is the same for every
  provider.
\<close>

theorem liveness_always_healthy:
  assumes "\<not> wroteHeader w" and "startTime h < Now world"
  shows "\<exists>d u. LivenessHandler world h w r io = Inr (writeHealthResponse world h w d, io)
     \<and> code (writeHealthResponse world h w d) = 200
     \<and> Status d = HealthStatusHealthy
     \<and> Checks d = Map.empty(''application'' \<mapsto> CheckStatusOK)
     \<and> dom (Checks d) = {''application''}
     \<and> Uptime d = Some u \<and> 0 < u
     \<and> (Marshals world d \<longrightarrow>
          body (writeHealthResponse world h w d) = body w @ [JSONDocument d])
     \<and> LivenessHandler world (h\<lparr>provider := p\<rparr>) w r io = LivenessHandler world h w r io"
proof -
  define d where "d = \<lparr>Status = HealthStatusHealthy,
              Timestamp = Now world,
              Version = version_Version world,
              Checks = Map.empty(''application'' \<mapsto> CheckStatusOK),
              Uptime = Some (time_Since (Now world) (startTime h)),
              Details = Map.empty\<rparr>"
  have l: "LivenessHandler world h w r io = Inr (writeHealthResponse world h w d, io)"
    by (simp add: LivenessHandler_document d_def)
  have k: "code (writeHealthResponse world h w d) = 200"
    using assms(1) by (simp add: writeHealthResponse_code d_def status_constants)
  have s: "Status d = HealthStatusHealthy"
    and c: "Checks d = Map.empty(''application'' \<mapsto> CheckStatusOK)"
    and c': "dom (Checks d) = {''application''}"
    and u: "Uptime d = Some (time_Since (Now world) (startTime h))"
    by (simp_all add: d_def)
  have pos: "0 < time_Since (Now world) (startTime h)"
    using assms(2) by (rule time_Since_positive)
  have b: "Marshals world d \<longrightarrow>
          body (writeHealthResponse world h w d) = body w @ [JSONDocument d]"
    by (simp add: writeHealthResponse_body)
  have i: "LivenessHandler world (h\<lparr>provider := p\<rparr>) w r io = LivenessHandler world h w r io"
    by (simp add: LivenessHandler_def writeHealthResponse_def Let_def)
  show ?thesis
    using l k s c c' u pos b i by blast
qed

theorem liveness_always_healthy_witness:
  "\<not> wroteHeader NewRecorder
   \<and> startTime nilChecker < Now (worldAt 9 True)
   \<and> (\<exists>d. LivenessHandler (worldAt 9 True) nilChecker NewRecorder
              (testRequest ''GET'' [] ''10.0.0.1:1'') []
            = Inr (writeHealthResponse (worldAt 9 True) nilChecker NewRecorder d, [])
         \<and> code (writeHealthResponse (worldAt 9 True) nilChecker NewRecorder d) = 200
         \<and> Checks d = Map.empty(''application'' \<mapsto> CheckStatusOK)
         \<and> body (writeHealthResponse (worldAt 9 True) nilChecker NewRecorder d)
             = [JSONDocument d])"
proof -
  have w: "\<not> wroteHeader NewRecorder" by (simp add: NewRecorder_def)
  have t: "startTime nilChecker < Now (worldAt 9 True)"
    by (simp add: nilChecker_def worldAt_def)
  have m: "Marshals (worldAt 9 True) d" for d by (simp add: worldAt_def)
  have b: "body NewRecorder = []" by (simp add: NewRecorder_def)
  obtain d where
    "LivenessHandler (worldAt 9 True) nilChecker NewRecorder
              (testRequest ''GET'' [] ''10.0.0.1:1'') []
            = Inr (writeHealthResponse (worldAt 9 True) nilChecker NewRecorder d, [])"
    "code (writeHealthResponse (worldAt 9 True) nilChecker NewRecorder d) = 200"
    "Checks d = Map.empty(''application'' \<mapsto> CheckStatusOK)"
    "body (writeHealthResponse (worldAt 9 True) nilChecker NewRecorder d) = [JSONDocument d]"
    using liveness_always_healthy [OF w t, of "testRequest ''GET'' [] ''10.0.0.1:1''" "[]" None]
    by (auto simp: m b)
  then show ?thesis using w t by blast
qed

section \<open>The uptime field\<close>

lemma jsonKeys_uptime: "Uptime d = Some u \<Longrightarrow> ''uptime'' \<in> set (jsonKeys d)"
  by (simp add: jsonKeys_def)

lemma HealthHandler_document:
  assumes "performHealthChecks world h (WithTimeout (Now world) (Ctx r) (10 * Second)) False io
           = Inr (d, io')"
  shows "HealthHandler world h w r io = Inr (writeHealthResponse world h w d, io')"
  using assms by (simp add: HealthHandler_def Let_def)

lemma ReadinessHandler_document:
  assumes "performHealthChecks world h (WithTimeout (Now world) (Ctx r) (15 * Second)) True io
           = Inr (d, io')"
  shows "ReadinessHandler world h w r io = Inr (writeHealthResponse world h w d, io')"
  using assms by (simp add: ReadinessHandler_def Let_def)

text \<open>
  C9, as the code has it. The documents of all three endpoints carry the uptime: the
  handler of \<open>/health\<close>, the readiness handler and the liveness handler each write a
  document whose \<open>Uptime\<close> is the time since the checker was built, and the JSON object
  of such a document has the member \<open>uptime\<close>.
\<close>

theorem uptime_in_every_health_document:
  "(\<exists>d io'. HealthHandler world h w r io = Inr (writeHealthResponse world h w d, io')
      \<and> Uptime d = Some (time_Since (Now world) (startTime h))
      \<and> ''uptime'' \<in> set (jsonKeys d)
      \<and> (Marshals world d \<longrightarrow>
           body (writeHealthResponse world h w d) = body w @ [JSONDocument d]))
   \<and> (\<exists>d io'. ReadinessHandler world h w r io = Inr (writeHealthResponse world h w d, io')
      \<and> Uptime d = Some (time_Since (Now world) (startTime h))
      \<and> ''uptime'' \<in> set (jsonKeys d)
      \<and> (Marshals world d \<longrightarrow>
           body (writeHealthResponse world h w d) = body w @ [JSONDocument d]))
   \<and> (\<exists>d io'. LivenessHandler world h w r io = Inr (writeHealthResponse world h w d, io')
      \<and> Uptime d = Some (time_Since (Now world) (startTime h))
      \<and> ''uptime'' \<in> set (jsonKeys d)
      \<and> (Marshals world d \<longrightarrow>
           body (writeHealthResponse world h w d) = body w @ [JSONDocument d]))"
proof -
  have B: "Marshals world d \<longrightarrow>
           body (writeHealthResponse world h w d) = body w @ [JSONDocument d]" for d
    by (simp add: writeHealthResponse_body)
  obtain d1 io1 where
    p1: "performHealthChecks world h (WithTimeout (Now world) (Ctx r) (10 * Second)) False io
         = Inr (d1, io1)"
    and u1: "Uptime d1 = Some (time_Since (Now world) (startTime h))"
    using performHealthChecks_total by blast
  obtain d2 io2 where
    p2: "performHealthChecks world h (WithTimeout (Now world) (Ctx r) (15 * Second)) True io
         = Inr (d2, io2)"
    and u2: "Uptime d2 = Some (time_Since (Now world) (startTime h))"
    using performHealthChecks_total by blast
  define d3 where "d3 = \<lparr>Status = HealthStatusHealthy,
              Timestamp = Now world,
              Version = version_Version world,
              Checks = Map.empty(''application'' \<mapsto> CheckStatusOK),
              Uptime = Some (time_Since (Now world) (startTime h)),
              Details = Map.empty\<rparr>"
  have u3: "Uptime d3 = Some (time_Since (Now world) (startTime h))" by (simp add: d3_def)
  have l3: "LivenessHandler world h w r io = Inr (writeHealthResponse world h w d3, io)"
    by (simp add: LivenessHandler_document d3_def)
  have H: "\<exists>d io'. HealthHandler world h w r io = Inr (writeHealthResponse world h w d, io')
      \<and> Uptime d = Some (time_Since (Now world) (startTime h))
      \<and> ''uptime'' \<in> set (jsonKeys d)
      \<and> (Marshals world d \<longrightarrow>
           body (writeHealthResponse world h w d) = body w @ [JSONDocument d])"
    using HealthHandler_document [OF p1] u1 jsonKeys_uptime [OF u1] B by blast
  have R: "\<exists>d io'. ReadinessHandler world h w r io = Inr (writeHealthResponse world h w d, io')
      \<and> Uptime d = Some (time_Since (Now world) (startTime h))
      \<and> ''uptime'' \<in> set (jsonKeys d)
      \<and> (Marshals world d \<longrightarrow>
           body (writeHealthResponse world h w d) = body w @ [JSONDocument d])"
    using ReadinessHandler_document [OF p2] u2 jsonKeys_uptime [OF u2] B by blast
  have L: "\<exists>d io'. LivenessHandler world h w r io = Inr (writeHealthResponse world h w d, io')
      \<and> Uptime d = Some (time_Since (Now world) (startTime h))
      \<and> ''uptime'' \<in> set (jsonKeys d)
      \<and> (Marshals world d \<longrightarrow>
           body (writeHealthResponse world h w d) = body w @ [JSONDocument d])"
    using l3 u3 jsonKeys_uptime [OF u3] B by blast
  show ?thesis using H R L by (intro conjI)
qed

theorem uptime_in_every_health_document_witness:
  "\<exists>d io'. HealthHandler (worldAt 9 True) readyChecker NewRecorder
              (testRequest ''GET'' [] ''10.0.0.1:1'') []
            = Inr (writeHealthResponse (worldAt 9 True) readyChecker NewRecorder d, io')
      \<and> Uptime d = Some 9
      \<and> ''uptime'' \<in> set (jsonKeys d)
      \<and> body (writeHealthResponse (worldAt 9 True) readyChecker NewRecorder d)
          = [JSONDocument d]"
proof -
  have m: "Marshals (worldAt 9 True) d" for d by (simp add: worldAt_def)
  have b: "body NewRecorder = []" by (simp add: NewRecorder_def)
  have t: "time_Since (Now (worldAt 9 True)) (startTime readyChecker) = 9"
    by (simp add: time_Since_def time_Sub_def worldAt_def readyChecker_def Let_def
        maxDuration_def minDuration_def)
  show ?thesis
    using uptime_in_every_health_document [of "worldAt 9 True" readyChecker NewRecorder
        "testRequest ''GET'' [] ''10.0.0.1:1''" "[]"]
    by (simp add: m b t)
qed

text \<open>
  The claim C9 as it was stated fails for the document of \<open>/health\<close>: for a checker
  without a provider, built when the clock read 0 and asked when it reads 5, the handler
  writes a document with the uptime 5, and \<open>uptime\<close> is a member of its JSON object.
\<close>

theorem health_document_uptime_counterexample:
  "HealthHandler (worldAt 5 True) nilChecker NewRecorder (testRequest ''GET'' [] ''10.0.0.1:1'') []
     = Inr (writeHealthResponse (worldAt 5 True) nilChecker NewRecorder nilHealthDocument, [])
   \<and> body (writeHealthResponse (worldAt 5 True) nilChecker NewRecorder nilHealthDocument)
       = [JSONDocument nilHealthDocument]
   \<and> Uptime nilHealthDocument = Some 5
   \<and> jsonKeys nilHealthDocument
       = [''status'', ''timestamp'', ''version'', ''checks'', ''uptime'', ''details'']"
proof -
  have c: "checkCacheSystem nilChecker [] = Inr (CheckStatusError, [])"
    by (simp add: checkCacheSystem_nil nilChecker_def)
  have t: "time_Since (Now (worldAt 5 True)) (startTime nilChecker) = 5"
    by (simp add: time_Since_def time_Sub_def worldAt_def nilChecker_def Let_def
        maxDuration_def minDuration_def)
  have p: "performHealthChecks (worldAt 5 True) nilChecker ctx False []
           = Inr (nilHealthDocument, [])" for ctx
    by (simp add: performHealthChecks_basic [OF c] t nilHealthDocument_def)
      (simp add: worldAt_def)
  have h: "HealthHandler (worldAt 5 True) nilChecker NewRecorder
             (testRequest ''GET'' [] ''10.0.0.1:1'') []
           = Inr (writeHealthResponse (worldAt 5 True) nilChecker NewRecorder nilHealthDocument, [])"
    by (rule HealthHandler_document [OF p])
  have m: "Marshals (worldAt 5 True) nilHealthDocument" by (simp add: worldAt_def)
  have b: "body (writeHealthResponse (worldAt 5 True) nilChecker NewRecorder nilHealthDocument)
           = [JSONDocument nilHealthDocument]"
    by (simp add: writeHealthResponse_body [OF m] NewRecorder_def)
  have u: "Uptime nilHealthDocument = Some 5" by (simp add: nilHealthDocument_def)
  have k: "jsonKeys nilHealthDocument
           = [''status'', ''timestamp'', ''version'', ''checks'', ''uptime'', ''details'']"
    by (simp add: jsonKeys_def nilHealthDocument_def)
  show ?thesis using h b u k by (intro conjI)
qed

section \<open>A missing provider\<close>

text \<open>
  C10. With a nil provider the cache check and the Slack check both report \<open>error\<close>
  without calling anything. The handler of \<open>/health\<close> then writes a document whose
  only check, \<open>cache\<close>, is \<open>error\<close>, and the readiness handler writes one in which
  \<open>cache\<close> and \<open>slack_api\<close> are both \<open>error\<close>; each document is unhealthy, is
  sent with status 503 on a writer that has sent nothing yet, and is the body when it can
  be encoded. With a provider whose client is nil the Slack check reports \<open>error\<close>
  after the one call that asks for the client, and the readiness handler writes an
  unhealthy document with \<open>slack_api\<close> in \<open>error\<close> and status 503. No handler panics,
  for any checker: the two probes write the document \<open>performHealthChecks\<close> returns,
  and the liveness probe, which depends on no provider, writes the document with the
  single check \<open>application\<close> in \<open>ok\<close> and calls nothing.
\<close>

theorem nil_provider_is_an_error:
  "(provider h = None \<longrightarrow>
      checkCacheSystem h io = Inr (CheckStatusError, io)
    \<and> checkSlackAPI world h ctx io = Inr (CheckStatusError, io)
    \<and> (\<exists>d. performHealthChecks world h ctx False io = Inr (d, io)
          \<and> Checks d = Map.empty(''cache'' \<mapsto> CheckStatusError)
          \<and> Status d = HealthStatusUnhealthy)
    \<and> (\<exists>d. performHealthChecks world h ctx True io = Inr (d, io)
          \<and> Checks d = Map.empty(''cache'' \<mapsto> CheckStatusError,
                                  ''slack_api'' \<mapsto> CheckStatusError)
          \<and> Status d = HealthStatusUnhealthy)
    \<and> (\<exists>d. HealthHandler world h w r io = Inr (writeHealthResponse world h w d, io)
          \<and> Checks d = Map.empty(''cache'' \<mapsto> CheckStatusError)
          \<and> Status d = HealthStatusUnhealthy
          \<and> (\<not> wroteHeader w \<longrightarrow> code (writeHealthResponse world h w d) = 503)
          \<and> (Marshals world d \<longrightarrow>
                body (writeHealthResponse world h w d) = body w @ [JSONDocument d]))
    \<and> (\<exists>d. ReadinessHandler world h w r io = Inr (writeHealthResponse world h w d, io)
          \<and> Checks d = Map.empty(''cache'' \<mapsto> CheckStatusError,
                                  ''slack_api'' \<mapsto> CheckStatusError)
          \<and> Status d = HealthStatusUnhealthy
          \<and> (\<not> wroteHeader w \<longrightarrow> code (writeHealthResponse world h w d) = 503)
          \<and> (Marshals world d \<longrightarrow>
                body (writeHealthResponse world h w d) = body w @ [JSONDocument d])))
   \<and> (provider h = Some a \<and> Slack a = None \<longrightarrow>
      checkSlackAPI world h ctx io = Inr (CheckStatusError, io @ [CallSlack])
    \<and> (\<exists>d io'. performHealthChecks world h ctx True io = Inr (d, io')
          \<and> Checks d ''slack_api'' = Some CheckStatusError
          \<and> Status d = HealthStatusUnhealthy)
    \<and> (\<exists>d. ReadinessHandler world h w r io
               = Inr (writeHealthResponse world h w d, io @ [CallIsReady, CallSlack])
          \<and> Checks d ''slack_api'' = Some CheckStatusError
          \<and> Status d = HealthStatusUnhealthy
          \<and> (\<not> wroteHeader w \<longrightarrow> code (writeHealthResponse world h w d) = 503)
          \<and> (Marshals world d \<longrightarrow>
                body (writeHealthResponse world h w d) = body w @ [JSONDocument d])))
   \<and> (\<exists>d io'. performHealthChecks world h
                   (WithTimeout (Now world) (Ctx r) (10 * Second)) False io = Inr (d, io')
          \<and> HealthHandler world h w r io = Inr (writeHealthResponse world h w d, io'))
   \<and> (\<exists>d io'. performHealthChecks world h
                   (WithTimeout (Now world) (Ctx r) (15 * Second)) True io = Inr (d, io')
          \<and> ReadinessHandler world h w r io = Inr (writeHealthResponse world h w d, io'))
   \<and> (\<exists>d. LivenessHandler world h w r io = Inr (writeHealthResponse world h w d, io)
          \<and> Checks d = Map.empty(''application'' \<mapsto> CheckStatusOK)
          \<and> Status d = HealthStatusHealthy)"
proof -
  define up where "up = time_Since (Now world) (startTime h)"
  define dH where
    "dH = \<lparr>Status = HealthStatusUnhealthy, Timestamp = Now world,
           Version = version_Version world,
           Checks = Map.empty(''cache'' \<mapsto> CheckStatusError),
           Uptime = Some up,
           Details = Map.empty(''cache'' \<mapsto> ''Cache system not ready'')\<rparr>"
  define dR where
    "dR = \<lparr>Status = HealthStatusUnhealthy, Timestamp = Now world,
           Version = version_Version world,
           Checks = Map.empty(''cache'' \<mapsto> CheckStatusError,
                              ''slack_api'' \<mapsto> CheckStatusError),
           Uptime = Some up,
           Details = Map.empty(''cache'' \<mapsto> ''Cache system not ready'',
                               ''slack_api'' \<mapsto> ''Slack API connectivity failed'')\<rparr>"
  define dL where
    "dL = \<lparr>Status = HealthStatusHealthy, Timestamp = Now world,
           Version = version_Version world,
           Checks = Map.empty(''application'' \<mapsto> CheckStatusOK),
           Uptime = Some up,
           Details = Map.empty\<rparr>"
  have B: "Marshals world d \<longrightarrow>
           body (writeHealthResponse world h w d) = body w @ [JSONDocument d]" for d
    by (simp add: writeHealthResponse_body)
  have K: "\<not> wroteHeader w \<longrightarrow> code (writeHealthResponse world h w d) = 503"
    if "Status d = HealthStatusUnhealthy" for d
    using that by (simp add: writeHealthResponse_code)
  have N: "checkCacheSystem h io = Inr (CheckStatusError, io)
    \<and> checkSlackAPI world h ctx io = Inr (CheckStatusError, io)
    \<and> (\<exists>d. performHealthChecks world h ctx False io = Inr (d, io)
          \<and> Checks d = Map.empty(''cache'' \<mapsto> CheckStatusError)
          \<and> Status d = HealthStatusUnhealthy)
    \<and> (\<exists>d. performHealthChecks world h ctx True io = Inr (d, io)
          \<and> Checks d = Map.empty(''cache'' \<mapsto> CheckStatusError,
                                  ''slack_api'' \<mapsto> CheckStatusError)
          \<and> Status d = HealthStatusUnhealthy)
    \<and> (\<exists>d. HealthHandler world h w r io = Inr (writeHealthResponse world h w d, io)
          \<and> Checks d = Map.empty(''cache'' \<mapsto> CheckStatusError)
          \<and> Status d = HealthStatusUnhealthy
          \<and> (\<not> wroteHeader w \<longrightarrow> code (writeHealthResponse world h w d) = 503)
          \<and> (Marshals world d \<longrightarrow>
                body (writeHealthResponse world h w d) = body w @ [JSONDocument d]))
    \<and> (\<exists>d. ReadinessHandler world h w r io = Inr (writeHealthResponse world h w d, io)
          \<and> Checks d = Map.empty(''cache'' \<mapsto> CheckStatusError,
                                  ''slack_api'' \<mapsto> CheckStatusError)
          \<and> Status d = HealthStatusUnhealthy
          \<and> (\<not> wroteHeader w \<longrightarrow> code (writeHealthResponse world h w d) = 503)
          \<and> (Marshals world d \<longrightarrow>
                body (writeHealthResponse world h w d) = body w @ [JSONDocument d]))"
    if n: "provider h = None"
  proof -
    have c: "checkCacheSystem h io = Inr (CheckStatusError, io)"
      using n by (rule checkCacheSystem_nil)
    have s: "checkSlackAPI world h ctx' io = Inr (CheckStatusError, io)" for ctx'
      using n by (rule checkSlackAPI_nil)
    have pH: "performHealthChecks world h ctx' False io = Inr (dH, io)" for ctx'
      by (simp add: performHealthChecks_basic [OF c] dH_def up_def)
    have pR: "performHealthChecks world h ctx' True io = Inr (dR, io)" for ctx'
      by (simp add: performHealthChecks_readiness [OF c s] dR_def up_def)
    have hH: "HealthHandler world h w r io = Inr (writeHealthResponse world h w dH, io)"
      by (rule HealthHandler_document [OF pH])
    have hR: "ReadinessHandler world h w r io = Inr (writeHealthResponse world h w dR, io)"
      by (rule ReadinessHandler_document [OF pR])
    have cH: "Checks dH = Map.empty(''cache'' \<mapsto> CheckStatusError)"
      and sH: "Status dH = HealthStatusUnhealthy"
      by (simp_all add: dH_def)
    have cR: "Checks dR = Map.empty(''cache'' \<mapsto> CheckStatusError,
                                    ''slack_api'' \<mapsto> CheckStatusError)"
      and sR: "Status dR = HealthStatusUnhealthy"
      by (simp_all add: dR_def)
    have 1: "\<exists>d. performHealthChecks world h ctx False io = Inr (d, io)
          \<and> Checks d = Map.empty(''cache'' \<mapsto> CheckStatusError)
          \<and> Status d = HealthStatusUnhealthy"
      using pH cH sH by (intro exI [of _ dH] conjI)
    have 2: "\<exists>d. performHealthChecks world h ctx True io = Inr (d, io)
          \<and> Checks d = Map.empty(''cache'' \<mapsto> CheckStatusError,
                                  ''slack_api'' \<mapsto> CheckStatusError)
          \<and> Status d = HealthStatusUnhealthy"
      using pR cR sR by (intro exI [of _ dR] conjI)
    have 3: "\<exists>d. HealthHandler world h w r io = Inr (writeHealthResponse world h w d, io)
          \<and> Checks d = Map.empty(''cache'' \<mapsto> CheckStatusError)
          \<and> Status d = HealthStatusUnhealthy
          \<and> (\<not> wroteHeader w \<longrightarrow> code (writeHealthResponse world h w d) = 503)
          \<and> (Marshals world d \<longrightarrow>
                body (writeHealthResponse world h w d) = body w @ [JSONDocument d])"
      using hH cH sH K [OF sH] B [of dH] by (intro exI [of _ dH] conjI)
    have 4: "\<exists>d. ReadinessHandler world h w r io = Inr (writeHealthResponse world h w d, io)
          \<and> Checks d = Map.empty(''cache'' \<mapsto> CheckStatusError,
                                  ''slack_api'' \<mapsto> CheckStatusError)
          \<and> Status d = HealthStatusUnhealthy
          \<and> (\<not> wroteHeader w \<longrightarrow> code (writeHealthResponse world h w d) = 503)
          \<and> (Marshals world d \<longrightarrow>
                body (writeHealthResponse world h w d) = body w @ [JSONDocument d])"
      using hR cR sR K [OF sR] B [of dR] by (intro exI [of _ dR] conjI)
    show ?thesis using c s [of ctx] 1 2 3 4 by (intro conjI)
  qed
  have C: "checkSlackAPI world h ctx io = Inr (CheckStatusError, io @ [CallSlack])
    \<and> (\<exists>d io'. performHealthChecks world h ctx True io = Inr (d, io')
          \<and> Checks d ''slack_api'' = Some CheckStatusError
          \<and> Status d = HealthStatusUnhealthy)
    \<and> (\<exists>d. ReadinessHandler world h w r io
               = Inr (writeHealthResponse world h w d, io @ [CallIsReady, CallSlack])
          \<and> Checks d ''slack_api'' = Some CheckStatusError
          \<and> Status d = HealthStatusUnhealthy
          \<and> (\<not> wroteHeader w \<longrightarrow> code (writeHealthResponse world h w d) = 503)
          \<and> (Marshals world d \<longrightarrow>
                body (writeHealthResponse world h w d) = body w @ [JSONDocument d]))"
    if p: "provider h = Some a" and q: "Slack a = None"
  proof -
    obtain s1 where c: "checkCacheSystem h io = Inr (s1, io @ [CallIsReady])"
      using p by (simp add: checkCacheSystem_provider)
    have s: "checkSlackAPI world h ctx' io1 = Inr (CheckStatusError, io1 @ [CallSlack])"
      for ctx' io1
      using p q by (rule checkSlackAPI_no_client)
    obtain d where pR: "performHealthChecks world h ctx True io
                        = Inr (d, (io @ [CallIsReady]) @ [CallSlack])"
      and cd: "Checks d ''slack_api'' = Some CheckStatusError"
      and sd: "Status d = HealthStatusUnhealthy"
      by (simp add: performHealthChecks_readiness [OF c s])
    obtain d' where pR': "performHealthChecks world h
                            (WithTimeout (Now world) (Ctx r) (15 * Second)) True io
                          = Inr (d', (io @ [CallIsReady]) @ [CallSlack])"
      and cd': "Checks d' ''slack_api'' = Some CheckStatusError"
      and sd': "Status d' = HealthStatusUnhealthy"
      by (simp add: performHealthChecks_readiness [OF c s])
    have hR: "ReadinessHandler world h w r io
              = Inr (writeHealthResponse world h w d', io @ [CallIsReady, CallSlack])"
      using ReadinessHandler_document [OF pR'] by simp
    have 1: "\<exists>d io'. performHealthChecks world h ctx True io = Inr (d, io')
          \<and> Checks d ''slack_api'' = Some CheckStatusError
          \<and> Status d = HealthStatusUnhealthy"
      using pR cd sd by (intro exI [of _ d] exI [of _ "(io @ [CallIsReady]) @ [CallSlack]"] conjI)
    have 2: "\<exists>d. ReadinessHandler world h w r io
               = Inr (writeHealthResponse world h w d, io @ [CallIsReady, CallSlack])
          \<and> Checks d ''slack_api'' = Some CheckStatusError
          \<and> Status d = HealthStatusUnhealthy
          \<and> (\<not> wroteHeader w \<longrightarrow> code (writeHealthResponse world h w d) = 503)
          \<and> (Marshals world d \<longrightarrow>
                body (writeHealthResponse world h w d) = body w @ [JSONDocument d])"
      using hR cd' sd' K [OF sd'] B [of d'] by (intro exI [of _ d'] conjI)
    show ?thesis using s [of ctx io] 1 2 by (intro conjI)
  qed
  have H: "\<exists>d io'. performHealthChecks world h
                   (WithTimeout (Now world) (Ctx r) (10 * Second)) False io = Inr (d, io')
          \<and> HealthHandler world h w r io = Inr (writeHealthResponse world h w d, io')"
  proof -
    obtain d io' where p: "performHealthChecks world h
                   (WithTimeout (Now world) (Ctx r) (10 * Second)) False io = Inr (d, io')"
      using performHealthChecks_total by blast
    show ?thesis
      using p HealthHandler_document [OF p] by (intro exI [of _ d] exI [of _ io'] conjI)
  qed
  have R: "\<exists>d io'. performHealthChecks world h
                   (WithTimeout (Now world) (Ctx r) (15 * Second)) True io = Inr (d, io')
          \<and> ReadinessHandler world h w r io = Inr (writeHealthResponse world h w d, io')"
  proof -
    obtain d io' where p: "performHealthChecks world h
                   (WithTimeout (Now world) (Ctx r) (15 * Second)) True io = Inr (d, io')"
      using performHealthChecks_total by blast
    show ?thesis
      using p ReadinessHandler_document [OF p] by (intro exI [of _ d] exI [of _ io'] conjI)
  qed
  have L: "\<exists>d. LivenessHandler world h w r io = Inr (writeHealthResponse world h w d, io)
          \<and> Checks d = Map.empty(''application'' \<mapsto> CheckStatusOK)
          \<and> Status d = HealthStatusHealthy"
  proof (intro exI [of _ dL] conjI)
    show "LivenessHandler world h w r io = Inr (writeHealthResponse world h w dL, io)"
      by (simp add: LivenessHandler_document dL_def up_def)
    show "Checks dL = Map.empty(''application'' \<mapsto> CheckStatusOK)" by (simp add: dL_def)
    show "Status dL = HealthStatusHealthy" by (simp add: dL_def)
  qed
  have N': "provider h = None \<longrightarrow>
      checkCacheSystem h io = Inr (CheckStatusError, io)
    \<and> checkSlackAPI world h ctx io = Inr (CheckStatusError, io)
    \<and> (\<exists>d. performHealthChecks world h ctx False io = Inr (d, io)
          \<and> Checks d = Map.empty(''cache'' \<mapsto> CheckStatusError)
          \<and> Status d = HealthStatusUnhealthy)
    \<and> (\<exists>d. performHealthChecks world h ctx True io = Inr (d, io)
          \<and> Checks d = Map.empty(''cache'' \<mapsto> CheckStatusError,
                                  ''slack_api'' \<mapsto> CheckStatusError)
          \<and> Status d = HealthStatusUnhealthy)
    \<and> (\<exists>d. HealthHandler world h w r io = Inr (writeHealthResponse world h w d, io)
          \<and> Checks d = Map.empty(''cache'' \<mapsto> CheckStatusError)
          \<and> Status d = HealthStatusUnhealthy
          \<and> (\<not> wroteHeader w \<longrightarrow> code (writeHealthResponse world h w d) = 503)
          \<and> (Marshals world d \<longrightarrow>
                body (writeHealthResponse world h w d) = body w @ [JSONDocument d]))
    \<and> (\<exists>d. ReadinessHandler world h w r io = Inr (writeHealthResponse world h w d, io)
          \<and> Checks d = Map.empty(''cache'' \<mapsto> CheckStatusError,
                                  ''slack_api'' \<mapsto> CheckStatusError)
          \<and> Status d = HealthStatusUnhealthy
          \<and> (\<not> wroteHeader w \<longrightarrow> code (writeHealthResponse world h w d) = 503)
          \<and> (Marshals world d \<longrightarrow>
                body (writeHealthResponse world h w d) = body w @ [JSONDocument d]))"
    by (rule impI) (rule N)
  have C': "provider h = Some a \<and> Slack a = None \<longrightarrow>
      checkSlackAPI world h ctx io = Inr (CheckStatusError, io @ [CallSlack])
    \<and> (\<exists>d io'. performHealthChecks world h ctx True io = Inr (d, io')
          \<and> Checks d ''slack_api'' = Some CheckStatusError
          \<and> Status d = HealthStatusUnhealthy)
    \<and> (\<exists>d. ReadinessHandler world h w r io
               = Inr (writeHealthResponse world h w d, io @ [CallIsReady, CallSlack])
          \<and> Checks d ''slack_api'' = Some CheckStatusError
          \<and> Status d = HealthStatusUnhealthy
          \<and> (\<not> wroteHeader w \<longrightarrow> code (writeHealthResponse world h w d) = 503)
          \<and> (Marshals world d \<longrightarrow>
                body (writeHealthResponse world h w d) = body w @ [JSONDocument d]))"
    by (rule impI, erule conjE, rule C)
  show ?thesis using N' C' H R L by (intro conjI)
qed

theorem nil_provider_is_an_error_witness:
  "provider nilChecker = None
   \<and> checkCacheSystem nilChecker [] = Inr (CheckStatusError, [])
   \<and> checkSlackAPI (worldAt 9 True) nilChecker \<lparr>deadline = None\<rparr> []
       = Inr (CheckStatusError, [])
   \<and> (\<exists>d. HealthHandler (worldAt 9 True) nilChecker NewRecorder
              (testRequest ''GET'' [] ''10.0.0.1:1'') []
            = Inr (writeHealthResponse (worldAt 9 True) nilChecker NewRecorder d, [])
        \<and> Checks d = Map.empty(''cache'' \<mapsto> CheckStatusError)
        \<and> Status d = HealthStatusUnhealthy
        \<and> code (writeHealthResponse (worldAt 9 True) nilChecker NewRecorder d) = 503
        \<and> body (writeHealthResponse (worldAt 9 True) nilChecker NewRecorder d)
            = [JSONDocument d])
   \<and> (\<exists>d. ReadinessHandler (worldAt 9 True) nilChecker NewRecorder
              (testRequest ''GET'' [] ''10.0.0.1:1'') []
            = Inr (writeHealthResponse (worldAt 9 True) nilChecker NewRecorder d, [])
        \<and> Checks d = Map.empty(''cache'' \<mapsto> CheckStatusError,
                                ''slack_api'' \<mapsto> CheckStatusError)
        \<and> Status d = HealthStatusUnhealthy
        \<and> code (writeHealthResponse (worldAt 9 True) nilChecker NewRecorder d) = 503
        \<and> body (writeHealthResponse (worldAt 9 True) nilChecker NewRecorder d)
            = [JSONDocument d])
   \<and> provider noClientChecker = Some \<lparr>IsReady = (False, Some ''not ready''), Slack = None\<rparr>
   \<and> checkSlackAPI (worldAt 9 True) noClientChecker \<lparr>deadline = None\<rparr> []
       = Inr (CheckStatusError, [CallSlack])
   \<and> (\<exists>d. ReadinessHandler (worldAt 9 True) noClientChecker NewRecorder
              (testRequest ''GET'' [] ''10.0.0.1:1'') []
            = Inr (writeHealthResponse (worldAt 9 True) noClientChecker NewRecorder d,
                   [CallIsReady, CallSlack])
        \<and> Checks d ''slack_api'' = Some CheckStatusError
        \<and> Status d = HealthStatusUnhealthy
        \<and> code (writeHealthResponse (worldAt 9 True) noClientChecker NewRecorder d) = 503
        \<and> body (writeHealthResponse (worldAt 9 True) noClientChecker NewRecorder d)
            = [JSONDocument d])"
proof -
  have n: "provider nilChecker = None" by (simp add: nilChecker_def)
  have c: "provider noClientChecker
           = Some \<lparr>IsReady = (False, Some ''not ready''), Slack = None\<rparr>"
    by (simp add: noClientChecker_def)
  have s: "Slack \<lparr>IsReady = (False, Some ''not ready''), Slack = None\<rparr> = None"
    by simp
  have m: "Marshals (worldAt 9 True) d" for d by (simp add: worldAt_def)
  have w: "\<not> wroteHeader NewRecorder" by (simp add: NewRecorder_def)
  have b: "body NewRecorder = []" by (simp add: NewRecorder_def)
  show ?thesis
    using n c s
      nil_provider_is_an_error [of nilChecker "[]" "worldAt 9 True" "\<lparr>deadline = None\<rparr>"
        NewRecorder "testRequest ''GET'' [] ''10.0.0.1:1''"
        "\<lparr>IsReady = (False, Some ''not ready''), Slack = None\<rparr>"]
      nil_provider_is_an_error [of noClientChecker "[]" "worldAt 9 True" "\<lparr>deadline = None\<rparr>"
        NewRecorder "testRequest ''GET'' [] ''10.0.0.1:1''"
        "\<lparr>IsReady = (False, Some ''not ready''), Slack = None\<rparr>"]
    by (simp add: m w b)
qed

end
